theory Spec2Isabelle
  imports Complex_Main
begin

section \<open>Numbers, units and three-vectors\<close>

text \<open>
  The C++ sources compute with \<^verbatim>\<open>double\<close>. The embedding computes with the real
  numbers: rounding is not modelled. Where a C++ expression leaves the finite numbers
  (a division by zero, \<^verbatim>\<open>pow(0, -0.2)\<close>, \<^verbatim>\<open>log(0)\<close>) and the code's control flow
  depends on the infinite value, the branch is written out in the definition and
  commented there. Elsewhere a quotient by zero is the 0 of HOL where the C++ value is an
  infinity or a NaN; a theorem whose statement depends on such a quotient carries the
  hypothesis that excludes it (positive energy, positive step, positive tolerance,
  positive rate).
\<close>

text \<open>
  Modelled from the spec: \<^verbatim>\<open>crpropa/Units.h\<close> is not among the sources. The speed of
  light is the SI value and \<^verbatim>\<open>c_squared\<close> its square; the SI base units
  \<^verbatim>\<open>kilogram\<close>, \<^verbatim>\<open>meter\<close> and \<^verbatim>\<open>ampere\<close> are 1.
\<close>

definition c_light :: real where
  "c_light = 299792458"

definition c_squared :: real where
  "c_squared = c_light * c_light"

definition mu0 :: real where
  "mu0 = 4 * pi * (1 / 10 ^ 7)"

definition eV :: real where
  "eV = 1602176487 / 10 ^ 28"

text \<open>
  Modelled from the spec: \<^verbatim>\<open>crpropa/Vector3.h\<close> is not among the sources. A
  \<^verbatim>\<open>Vector3d\<close> is three doubles with the componentwise arithmetic, the Euclidean
  norm \<^verbatim>\<open>getR\<close>, the scalar and the vector product, and
  \<^verbatim>\<open>getUnitVector() = *this / getR()\<close>.
\<close>

datatype Vector3d = Vector3d (vx: real) (vy: real) (vz: real)

definition vadd :: "Vector3d \<Rightarrow> Vector3d \<Rightarrow> Vector3d" where
  "vadd a b = Vector3d (vx a + vx b) (vy a + vy b) (vz a + vz b)"

definition vsub :: "Vector3d \<Rightarrow> Vector3d \<Rightarrow> Vector3d" where
  "vsub a b = Vector3d (vx a - vx b) (vy a - vy b) (vz a - vz b)"

definition vscale :: "Vector3d \<Rightarrow> real \<Rightarrow> Vector3d" where
  "vscale a f = Vector3d (vx a * f) (vy a * f) (vz a * f)"

definition vdiv :: "Vector3d \<Rightarrow> real \<Rightarrow> Vector3d" where
  "vdiv a f = Vector3d (vx a / f) (vy a / f) (vz a / f)"

definition dot :: "Vector3d \<Rightarrow> Vector3d \<Rightarrow> real" where
  "dot a b = vx a * vx b + vy a * vy b + vz a * vz b"

definition cross :: "Vector3d \<Rightarrow> Vector3d \<Rightarrow> Vector3d" where
  "cross a b = Vector3d (vy a * vz b - vz a * vy b)
                        (vz a * vx b - vx a * vz b)
                        (vx a * vy b - vy a * vx b)"

definition getR :: "Vector3d \<Rightarrow> real" where
  "getR a = sqrt (vx a * vx a + vy a * vy a + vz a * vz a)"

definition getUnitVector :: "Vector3d \<Rightarrow> Vector3d" where
  "getUnitVector a = vdiv a (getR a)"

definition zero3 :: Vector3d where
  "zero3 = Vector3d 0 0 0"

section \<open>ParticleState\<close>

text \<open>
  The class of \<^verbatim>\<open>ParticleState.h\<close>; the field \<^verbatim>\<open>id\<close> is named \<open>id_ps\<close>, since
  \<open>id\<close> is the identity function of HOL.
\<close>

record ParticleState =
  id_ps :: int
  energy :: real
  position :: Vector3d
  direction :: Vector3d
  pmass :: real
  charge :: real
  mcharge :: real

definition setPosition :: "Vector3d \<Rightarrow> ParticleState \<Rightarrow> ParticleState" where
  "setPosition pos s = s\<lparr>position := pos\<rparr>"

text \<open>
  \<^verbatim>\<open>direction = dir / dir.getR()\<close>. For the zero vector the C++ quotient is 0/0 in
  every component, a NaN; the quotient of HOL is 0. Neither has norm 1.
\<close>

definition setDirection :: "Vector3d \<Rightarrow> ParticleState \<Rightarrow> ParticleState" where
  "setDirection dir s = s\<lparr>direction := vdiv dir (getR dir)\<rparr>"

definition setEnergy :: "real \<Rightarrow> ParticleState \<Rightarrow> ParticleState" where
  "setEnergy newEnergy s = s\<lparr>energy := max 0 newEnergy\<rparr>"

definition getLorentzFactor :: "ParticleState \<Rightarrow> real" where
  "getLorentzFactor s = 1 + energy s / (pmass s * c_squared)"

definition setLorentzFactor :: "real \<Rightarrow> ParticleState \<Rightarrow> ParticleState" where
  "setLorentzFactor lf s =
     (let lf1 = max 0 lf in s\<lparr>energy := (lf1 - 1) * pmass s * c_squared\<rparr>)"

definition getVelocity :: "ParticleState \<Rightarrow> Vector3d" where
  "getVelocity s =
     vscale (vscale (direction s) c_light)
       (sqrt (1 - 1 / (1 + energy s / pmass s / c_squared) / (1 + energy s / pmass s / c_squared)))"

section \<open>Candidate\<close>

text \<open>
  Modelled from the spec: \<^verbatim>\<open>Candidate.h\<close> and \<^verbatim>\<open>Candidate.cpp\<close> are not among the
  sources. A candidate holds the current and the previous particle state, the step taken
  and the step proposed, its redshift, its activity flag and weight, and the ordered
  list of the secondaries added to it; \<^verbatim>\<open>addSecondary(id, energy, position, weight,
  tag)\<close> appends to that list, and \<^verbatim>\<open>limitNextStep\<close> lowers the proposed step to its
  argument when that is smaller. \<^verbatim>\<open>stepRadiation\<close> is the value stored by
  \<^verbatim>\<open>setStepRadiation\<close>.
\<close>

record Secondary =
  sec_id :: int
  sec_energy :: real
  sec_position :: Vector3d
  sec_weight :: real
  sec_tag :: string

record Candidate =
  current :: ParticleState
  previous :: ParticleState
  currentStep :: real
  nextStep :: real
  redshift :: real
  active :: bool
  weight :: real
  stepRadiation :: real
  secondaries :: "Secondary list"

definition addSecondary ::
  "int \<Rightarrow> real \<Rightarrow> Vector3d \<Rightarrow> real \<Rightarrow> string \<Rightarrow> Candidate \<Rightarrow> Candidate" where
  "addSecondary i E pos w tag c =
     c\<lparr>secondaries := secondaries c @
          [\<lparr>sec_id = i, sec_energy = E, sec_position = pos, sec_weight = w, sec_tag = tag\<rparr>]\<rparr>"

definition limitNextStep :: "real \<Rightarrow> Candidate \<Rightarrow> Candidate" where
  "limitNextStep step c = c\<lparr>nextStep := min (nextStep c) step\<rparr>"

section \<open>MonopolePropagationBP\<close>

text \<open>
  A magnetic field maps a position and a redshift to a field vector or throws a
  \<^verbatim>\<open>std::exception\<close> (\<open>Inl\<close> of its message). The module holds a
  \<^verbatim>\<open>ref_ptr\<close> to the field, which may be invalid (\<open>None\<close>).
\<close>

type_synonym MagneticField = "Vector3d \<Rightarrow> real \<Rightarrow> string + Vector3d"

record MonopolePropagationBP =
  field :: "MagneticField option"
  tolerance :: real
  minStep :: real
  maxStep :: real

text \<open>The phase point of the integrator: position \<^verbatim>\<open>x\<close> and direction \<^verbatim>\<open>u\<close>.\<close>

datatype Y = Y (Y_x: Vector3d) (Y_u: Vector3d)

text \<open>
  Modelled from the spec: \<^verbatim>\<open>crpropa/Common.h\<close> is not among the sources;
  \<^verbatim>\<open>clip(x, lower, upper)\<close> clamps \<open>x\<close> to the interval.
\<close>

definition clip :: "real \<Rightarrow> real \<Rightarrow> real \<Rightarrow> real" where
  "clip x lower upper = max lower (min x upper)"

text \<open>
  getFieldAtPosition starts from the zero vector and overwrites it only when the field
  is valid and its evaluation returns; the handler of the exception writes a log line,
  which is not modelled, and falls through to the return.
\<close>

definition getFieldAtPosition :: "MagneticField option \<Rightarrow> Vector3d \<Rightarrow> real \<Rightarrow> Vector3d" where
  "getFieldAtPosition fld pos z =
     (case fld of
        None \<Rightarrow> Vector3d 0 0 0
      | Some f \<Rightarrow> (case f pos z of Inl e \<Rightarrow> Vector3d 0 0 0 | Inr B \<Rightarrow> B))"

definition dY ::
  "MagneticField option \<Rightarrow> Vector3d \<Rightarrow> Vector3d \<Rightarrow> real \<Rightarrow> real \<Rightarrow> real \<Rightarrow> real \<Rightarrow> Y" where
  "dY fld pos dir step z g m =
     (let pos1 = vadd pos (vdiv (vscale dir step) 2);
          B = getFieldAtPosition fld pos1 z;
          dir1 = vadd dir (vdiv (vdiv (vscale (vscale B g) step) m) c_squared);
          pos2 = vadd pos1 (vdiv (vscale dir1 step) 2)
      in Y pos2 dir1)"

definition errorEstimation :: "Vector3d \<Rightarrow> Vector3d \<Rightarrow> real \<Rightarrow> real" where
  "errorEstimation x1 x2 step =
     (let diff = vsub x1 x2;
          S = getR diff / (step * (1 - 1 / 4))
      in S)"

text \<open>
  tryStep returns \<^verbatim>\<open>out\<close> and \<^verbatim>\<open>error\<close>. The source assigns the double returned by
  errorEstimation to the phase point \<^verbatim>\<open>error\<close>; the converting constructor of the
  class \<^verbatim>\<open>Y\<close> is declared in \<^verbatim>\<open>MonopolePropagationBP.h\<close>, which is not among the
  sources, and is the parameter \<open>Yd\<close> of the model.
\<close>

definition tryStep ::
  "(real \<Rightarrow> Y) \<Rightarrow> MagneticField option \<Rightarrow> Y \<Rightarrow> real \<Rightarrow> real \<Rightarrow> real \<Rightarrow> real \<Rightarrow> Y \<times> Y" where
  "tryStep Yd fld y h z m g =
     (let out = dY fld (Y_x y) (Y_u y) h z g m;
          outHelp = dY fld (Y_x y) (Y_u y) (h / 2) z g m;
          outCompare = dY fld (Y_x outHelp) (Y_u outHelp) (h / 2) z g m
      in (out, Yd (errorEstimation (Y_x out) (Y_x outCompare) h)))"

text \<open>
  The two updates of \<^verbatim>\<open>newStep\<close> in the loop of \<^verbatim>\<open>process\<close>. For \<open>r = 0\<close> the C++
  \<^verbatim>\<open>pow(r, -0.2)\<close> is \<open>+\<infinity>\<close>, and \<^verbatim>\<open>std::min\<close> with \<open>5 * step\<close> returns
  \<open>5 * step\<close> (for a positive step); the power of HOL is 0 there, so the case is
  written out.
\<close>

definition shrinkStep :: "real \<Rightarrow> real \<Rightarrow> real \<Rightarrow> real" where
  "shrinkStep step r minS =
     (let newStep1 = step * 0.95 * r powr (- 0.2);
          newStep2 = max newStep1 (0.1 * step);
          newStep3 = max newStep2 minS
      in newStep3)"

definition growStep :: "real \<Rightarrow> real \<Rightarrow> real \<Rightarrow> real" where
  "growStep step r maxS =
     (if r = 0 then min (5 * step) maxS
      else
        let newStep1 = step * 0.95 * r powr (- 0.2);
            newStep2 = min newStep1 (5 * step);
            newStep3 = min newStep2 maxS
        in newStep3)"

text \<open>
  The \<^verbatim>\<open>while (true)\<close> loop of \<^verbatim>\<open>process\<close>, with the number of attempts it may still
  make: over the reals nothing bounds the number of retries when \<open>minStep = 0\<close>, and
  \<open>None\<close> is a loop that has not left after that many attempts. It returns
  \<^verbatim>\<open>yOut\<close>, \<^verbatim>\<open>step\<close> and \<^verbatim>\<open>newStep\<close> as they are at the \<^verbatim>\<open>break\<close>.
\<close>

fun adaptLoop ::
  "nat \<Rightarrow> (real \<Rightarrow> Y) \<Rightarrow> MonopolePropagationBP \<Rightarrow> Y \<Rightarrow> real \<Rightarrow> real \<Rightarrow> real
     \<Rightarrow> real \<Rightarrow> real \<Rightarrow> (Y \<times> real \<times> real) option" where
  "adaptLoop 0 Yd P yIn z m g step newStep = None"
| "adaptLoop (Suc n) Yd P yIn z m g step newStep =
     (let (yOut, yErr) = tryStep Yd (field P) yIn step z m g;
          r = getR (Y_u yErr) / tolerance P
      in if r > 1 then
           (if step = minStep P then Some (yOut, step, newStep)
            else
              let newStep' = shrinkStep step r (minStep P)
              in adaptLoop n Yd P yIn z m g newStep' newStep')
         else
           Some (yOut, step, if step \<noteq> maxStep P then growStep step r (maxStep P) else newStep))"

definition process :: "nat \<Rightarrow> (real \<Rightarrow> Y) \<Rightarrow> MonopolePropagationBP \<Rightarrow> Candidate \<Rightarrow> Candidate option" where
  "process fuel Yd P candidate =
     (let cur = current candidate;
          c1 = candidate\<lparr>previous := cur\<rparr>;
          yIn = Y (position cur) (direction cur);
          g = mcharge cur
      in if g = 0 then
           (let step = clip (nextStep c1) (minStep P) (maxStep P)
            in Some (c1\<lparr>current := setPosition (vadd (Y_x yIn) (vscale (Y_u yIn) step)) cur,
                        currentStep := step, nextStep := maxStep P\<rparr>))
         else
           (let z = redshift c1;
                m = energy cur / (c_light * c_light);
                attempt =
                  (if minStep P = maxStep P
                   then Some (fst (tryStep Yd (field P) yIn (maxStep P) z m g), maxStep P, maxStep P)
                   else
                     let step = clip (nextStep c1) (minStep P) (maxStep P)
                     in adaptLoop fuel Yd P yIn z m g step step)
            in case attempt of
                 None \<Rightarrow> None
               | Some (yOut, step, newStep) \<Rightarrow>
                   (let cur1 = setPosition (Y_x yOut) cur;
                        cur2 = setDirection (getUnitVector (Y_u yOut)) cur1;
                        B = getFieldAtPosition (field P) (position cur2) z;
                        E = energy cur2;
                        dE = g * dot B (vscale (direction cur2) step);
                        cur3 = setEnergy (E + dE) cur2
                    in Some (c1\<lparr>current := cur3, currentStep := step, nextStep := newStep\<rparr>))))"

section \<open>Particle identifiers\<close>

text \<open>
  Modelled from the spec: the HepPID library (\<^verbatim>\<open>HepPID/ParticleIDMethods.hh\<close>) is not
  among the sources. Its nuclear codes are the codes \<open>10LZZZAAAI\<close> that
  \<^verbatim>\<open>nucleusId\<close> writes; the proton 2212 counts as a nucleus with \<open>A = Z = 1\<close>.
\<close>

definition nucleusId :: "int \<Rightarrow> int \<Rightarrow> string + int" where
  "nucleusId a z =
     (if z < 0 then Inl ''crpropa::Nucleus: no nucleus with Z < 0''
      else if a < 1 then Inl ''crpropa::Nucleus: no nucleus with A < 1''
      else if a < z then Inl ''crpropa::Nucleus: no nucleus with A < Z''
      else Inr (1000000000 + z * 10000 + a * 10))"

definition HepPID_isNucleus :: "int \<Rightarrow> bool" where
  "HepPID_isNucleus pid =
     (if \<bar>pid\<bar> = 2212 then True
      else if (\<bar>pid\<bar> div 1000000000) mod 10 = 1 \<and> (\<bar>pid\<bar> div 100000000) mod 10 = 0
      then (\<bar>pid\<bar> div 10000) mod 1000 \<le> (\<bar>pid\<bar> div 10) mod 1000
      else False)"

definition HepPID_Z :: "int \<Rightarrow> int" where
  "HepPID_Z pid =
     (if \<bar>pid\<bar> = 2212 then 1
      else if HepPID_isNucleus pid then (\<bar>pid\<bar> div 10000) mod 1000
      else 0)"

definition HepPID_A :: "int \<Rightarrow> int" where
  "HepPID_A pid =
     (if \<bar>pid\<bar> = 2212 then 1
      else if HepPID_isNucleus pid then (\<bar>pid\<bar> div 10) mod 1000
      else 0)"

definition chargeNumber :: "int \<Rightarrow> int" where
  "chargeNumber i = HepPID_Z i"

definition massNumber :: "int \<Rightarrow> int" where
  "massNumber i = (if i = 2112 then 1 else HepPID_A i)"

definition isNucleus :: "int \<Rightarrow> bool" where
  "isNucleus i = (if i = 2112 then True else HepPID_isNucleus i)"

section \<open>ElasticScattering\<close>

text \<open>
  The random generator is the list of the uniform numbers it will return, consumed from
  the front. A run fails in the model when the list is used up, or when a table is read
  outside its bounds, which is undefined behaviour in the source.
\<close>

datatype fault = DrawsExhausted | OutOfRange

definition lgmin :: real where
  "lgmin = 6"

definition lgmax :: real where
  "lgmax = 14"

definition nlg :: nat where
  "nlg = 201"

definition epsmin :: real where
  "epsmin = log 10 (2 * eV) + 3"

definition epsmax :: real where
  "epsmax = log 10 (2 * eV) + 8.12"

definition neps :: nat where
  "neps = 513"

record ElasticScattering =
  redshiftScaling :: "real \<Rightarrow> real"
  tabRate :: "real list"
  tabCDF :: "real list list"
  interactionTag_ES :: string

text \<open>
  Modelled from the spec: \<^verbatim>\<open>interpolateEquidistant\<close> of \<^verbatim>\<open>crpropa/Common.h\<close> is not
  among the sources. It interpolates linearly on the equidistant grid of the table
  between \<open>lo\<close> and \<open>hi\<close>, and returns the tabulated endpoint value at and beyond
  either bound.
\<close>

definition interpolateEquidistant :: "real \<Rightarrow> real \<Rightarrow> real \<Rightarrow> real list \<Rightarrow> real option" where
  "interpolateEquidistant x lo hi tab =
     (if tab = [] then None
      else if x \<le> lo then Some (tab ! 0)
      else if hi \<le> x then Some (tab ! (length tab - 1))
      else
        let dx = (hi - lo) / (real (length tab) - 1);
            p = (x - lo) / dx;
            i = nat \<lfloor>p\<rfloor>
        in if i + 1 < length tab
           then Some (tab ! i + (p - real i) * (tab ! (i + 1) - tab ! i))
           else None)"

text \<open>
  Modelled from the spec: \<^verbatim>\<open>crpropa/Random.h\<close> is not among the sources.
  \<^verbatim>\<open>randBin\<close> draws one uniform number and returns the index of the first bin whose
  cumulative value is not below that fraction of the total;
  \<^verbatim>\<open>randomInterpolatedPosition\<close> draws one uniform number and returns the point at
  that fraction of the segment.
\<close>

definition randBin :: "real list \<Rightarrow> real \<Rightarrow> nat" where
  "randBin cdf u = length (takeWhile (\<lambda>v. v < u * last cdf) cdf)"

definition randomInterpolatedPosition :: "Vector3d \<Rightarrow> Vector3d \<Rightarrow> real \<Rightarrow> Vector3d" where
  "randomInterpolatedPosition a b u = vadd a (vscale (vsub b a) u)"

text \<open>
  The \<^verbatim>\<open>while (step > 0)\<close> loop of \<^verbatim>\<open>ElasticScattering::process\<close>. An interaction
  takes five draws: the free path, the bin of the photon energy, the place in the bin,
  the angle and the position. For the rate 0 and for the draw 0 the C++
  \<^verbatim>\<open>-log(u) / rate\<close> is \<open>+\<infinity>\<close> and the test \<^verbatim>\<open>step < randDist\<close> returns; the
  quotient and the logarithm of HOL are 0 there, so the case is written out. The index
  \<^verbatim>\<open>j\<close> is a \<^verbatim>\<open>size_t\<close>, and \<^verbatim>\<open>randBin(...) - 1\<close> wraps to \<open>2^64 - 1\<close> when the bin
  is 0.
\<close>

function ES_loop ::
  "ElasticScattering \<Rightarrow> real \<Rightarrow> real \<Rightarrow> int \<Rightarrow> int \<Rightarrow> int \<Rightarrow> real \<Rightarrow> Candidate \<Rightarrow> real list
     \<Rightarrow> fault + (Candidate \<times> real list)" where
  "ES_loop E lg z A Z N step candidate draws =
     (if \<not> step > 0 then Inr (candidate, draws)
      else
        case interpolateEquidistant lg lgmin lgmax (tabRate E) of
          None \<Rightarrow> Inl OutOfRange
        | Some rate0 \<Rightarrow>
            (let rate1 = rate0 * (real_of_int (Z * N) / real_of_int A);
                 rate = rate1 * ((1 + z) ^ 2 * redshiftScaling E z)
             in case draws of
                  [] \<Rightarrow> Inl DrawsExhausted
                | u # us \<Rightarrow>
                    if rate = 0 \<or> u = 0 then Inr (candidate, us)
                    else
                      (let randDist = - ln u / rate
                       in if step < randDist then Inr (candidate, us)
                          else
                            (case us of
                               u2 # u3 # u4 # u5 # rest \<Rightarrow>
                                 (let i = nat \<lfloor>(lg - lgmin) / (lgmax - lgmin) * (real nlg - 1)\<rfloor>
                                  in if \<not> i < length (tabCDF E) \<or> tabCDF E ! i = []
                                     then Inl OutOfRange
                                     else
                                       (let b = randBin (tabCDF E ! i) u2;
                                            j = (if b = 0 then 2 ^ 64 - 1 else real b - 1);
                                            binWidth = (epsmax - epsmin) / (real neps - 1);
                                            eps = 10 powr (epsmin + (j + u3) * binWidth);
                                            cosTheta = 2 * u4 - 1;
                                            En = eps * getLorentzFactor (current candidate)
                                                   * (1 - cosTheta);
                                            pos = randomInterpolatedPosition
                                                    (position (previous candidate))
                                                    (position (current candidate)) u5;
                                            candidate' = addSecondary 22 En pos 1
                                                           (interactionTag_ES E) candidate
                                        in ES_loop E lg z A Z N (step - randDist) candidate' rest))
                             | _ \<Rightarrow> Inl DrawsExhausted))))"
  by pat_completeness auto

termination
  by (relation "measure (\<lambda>(E, lg, z, A, Z, N, step, candidate, draws). length draws)") auto

declare ES_loop.simps [simp del]

definition ES_process ::
  "ElasticScattering \<Rightarrow> Candidate \<Rightarrow> real list \<Rightarrow> fault + (Candidate \<times> real list)" where
  "ES_process E candidate draws =
     (let i = id_ps (current candidate);
          z = redshift candidate
      in if \<not> isNucleus i then Inr (candidate, draws)
         else
           (let lg = log 10 (getLorentzFactor (current candidate) * (1 + z))
            in if lg < lgmin \<or> lg > lgmax then Inr (candidate, draws)
               else
                 (let A = massNumber i;
                      Z = chargeNumber i;
                      N = A - Z;
                      step = currentStep candidate
                  in ES_loop E lg z A Z N step candidate draws)))"

section \<open>MonopoleRadiation\<close>

text \<open>
  The fields \<^verbatim>\<open>field\<close> and \<^verbatim>\<open>interactionTag\<close> carry the suffix \<open>_MR\<close>, the
  names being taken by the other modules. \<^verbatim>\<open>process\<close> calls the field outside any
  handler, so an exception of the field leaves it (\<open>Inl\<close>). After the test of
  \<^verbatim>\<open>havePhotons\<close> the source holds the sampling of the photons and their thinning inside
  a comment; the function ends there in both cases. For \<^verbatim>\<open>dEdx = 0\<close> the C++ quotient
  \<^verbatim>\<open>limit * E / dEdx\<close> is \<open>+\<infinity>\<close> (or a NaN), which \<^verbatim>\<open>limitNextStep\<close> never takes
  as the smaller step; the case is written out.
\<close>

record MonopoleRadiation =
  field_MR :: "MagneticField option"
  Brms :: real
  havePhotons :: bool
  thinning :: real
  limit :: real
  maximumSamples :: int
  secondaryThreshold :: real
  interactionTag_MR :: string

definition MR_process :: "MonopoleRadiation \<Rightarrow> Candidate \<Rightarrow> string + Candidate" where
  "MR_process M candidate =
     (let mc = \<bar>mcharge (current candidate)\<bar>
      in if mc = 0 then Inr candidate
         else
           (let z = redshift candidate;
                Bfield =
                  (case field_MR M of
                     Some f \<Rightarrow>
                       (case f (position (current candidate)) z of
                          Inl e \<Rightarrow> Inl e
                        | Inr Bvec \<Rightarrow> Inr (getR (cross Bvec (direction (current candidate)))))
                   | None \<Rightarrow> Inr (sqrt (2 / 3) * Brms M))
            in case Bfield of
                 Inl e \<Rightarrow> Inl e
               | Inr B0 \<Rightarrow>
                   (let B = B0 * (1 + z) ^ 2;
                        lf = getLorentzFactor (current candidate);
                        step = currentStep candidate / (1 + z);
                        beta = vdiv (getVelocity (current candidate)) c_light;
                        dbeta = vdiv (vsub (getVelocity (current candidate))
                                           (getVelocity (previous candidate))) step;
                        dEdx = mu0 / 6 / pi * lf ^ 6 * (mc / c_light) ^ 2
                                 * (dot dbeta dbeta - dot (cross beta dbeta) (cross beta dbeta));
                        dE = step * dEdx;
                        c1 = candidate\<lparr>stepRadiation := dE\<rparr>;
                        E = energy (current c1);
                        c2 = c1\<lparr>current := setEnergy (E - dE) (current c1)\<rparr>;
                        c3 = (if dEdx = 0 then c2 else limitNextStep (limit M * E / dEdx) c2)
                    in if \<not> havePhotons M then Inr c3 else Inr c3)))"

section \<open>One simulation step\<close>

text \<open>
  Modelled from the spec: the module list is not among the sources. In each step the
  pipeline runs the integrator once and then every interaction module once (here the
  elastic scattering and the monopole radiation); a step that fails in a module fails.
\<close>

definition simulationStep ::
  "nat \<Rightarrow> (real \<Rightarrow> Y) \<Rightarrow> MonopolePropagationBP \<Rightarrow> ElasticScattering \<Rightarrow> MonopoleRadiation
     \<Rightarrow> Candidate \<times> real list \<Rightarrow> (Candidate \<times> real list) option" where
  "simulationStep fuel Yd P E M cd =
     (case process fuel Yd P (fst cd) of
        None \<Rightarrow> None
      | Some c1 \<Rightarrow>
          (case ES_process E c1 (snd cd) of
             Inl e \<Rightarrow> None
           | Inr (c2, draws) \<Rightarrow>
               (case MR_process M c2 of
                  Inl e \<Rightarrow> None
                | Inr c3 \<Rightarrow> Some (c3, draws))))"

fun simulate ::
  "nat \<Rightarrow> nat \<Rightarrow> (real \<Rightarrow> Y) \<Rightarrow> MonopolePropagationBP \<Rightarrow> ElasticScattering \<Rightarrow> MonopoleRadiation
     \<Rightarrow> Candidate \<times> real list \<Rightarrow> (Candidate \<times> real list) option" where
  "simulate 0 fuel Yd P E M cd = Some cd"
| "simulate (Suc n) fuel Yd P E M cd =
     (case simulationStep fuel Yd P E M cd of
        None \<Rightarrow> None
      | Some cd' \<Rightarrow> simulate n fuel Yd P E M cd')"

section \<open>The formulas of the specification\<close>

text \<open>
  The error estimate of the specification: the distance of the two positions over
  \<open>h (1 - 1/4)\<close>.
\<close>

definition spec_errorEstimate :: "Vector3d \<Rightarrow> Vector3d \<Rightarrow> real \<Rightarrow> real" where
  "spec_errorEstimate outPosition comparePosition h =
     getR (vsub outPosition comparePosition) / (h * (1 - 1 / 4))"

text \<open>
  The proposal of the specification for the step after an accepted one:
  \<open>clamp(h * min(0.95 * r^-0.2, 5), h, maxStep)\<close>.
\<close>

definition spec_nextStep :: "real \<Rightarrow> real \<Rightarrow> real \<Rightarrow> real" where
  "spec_nextStep h r maxS = clip (h * min (0.95 * r powr (- 0.2)) 5) h maxS"

text \<open>
  The field that returns the zero vector wherever the given field throws, and the given
  field's value elsewhere.
\<close>

definition zero_on_failure :: "MagneticField \<Rightarrow> MagneticField" where
  "zero_on_failure f = (\<lambda>pos z. case f pos z of Inl e \<Rightarrow> Inr (Vector3d 0 0 0) | Inr B \<Rightarrow> Inr B)"

section \<open>Concrete particles and modules\<close>

definition heavy_state :: ParticleState where
  "heavy_state = \<lparr>id_ps = 4110000, energy = 0, position = Vector3d 0 0 0,
     direction = Vector3d 1 0 0, pmass = 1, charge = 0, mcharge = 1\<rparr>"

text \<open>
  An instance of the converting constructor of \<^verbatim>\<open>Y\<close> for the concrete runs: every
  component of both vectors is the number.
\<close>

definition Y_of_double :: "real \<Rightarrow> Y" where
  "Y_of_double f = Y (Vector3d f f f) (Vector3d f f f)"

definition monopole :: Candidate where
  "monopole = \<lparr>current = heavy_state\<lparr>energy := 1\<rparr>, previous = heavy_state\<lparr>energy := 1\<rparr>,
     currentStep = 0, nextStep = 1, redshift = 0, active = True, weight = 1,
     stepRadiation = 0, secondaries = []\<rparr>"

definition photon :: Candidate where
  "photon = \<lparr>current = \<lparr>id_ps = 22, energy = 1, position = Vector3d 0 0 0,
                direction = Vector3d 1 0 0, pmass = 0, charge = 0, mcharge = 0\<rparr>,
     previous = \<lparr>id_ps = 22, energy = 1, position = Vector3d 0 0 0,
                direction = Vector3d 1 0 0, pmass = 0, charge = 0, mcharge = 0\<rparr>,
     currentStep = 0, nextStep = 1, redshift = 0, active = True, weight = 1,
     stepRadiation = 0, secondaries = []\<rparr>"

definition ES_example :: ElasticScattering where
  "ES_example = \<lparr>redshiftScaling = (\<lambda>z. 1), tabRate = replicate 201 1,
     tabCDF = replicate 201 [1 / 2, 1], interactionTag_ES = ''ElasticScattering''\<rparr>"

definition MR_example :: MonopoleRadiation where
  "MR_example = \<lparr>field_MR = None, Brms = 0, havePhotons = True, thinning = 1 / 2,
     limit = 1 / 10, maximumSamples = 0, secondaryThreshold = 1000000 * eV,
     interactionTag_MR = ''MonopoleRadiation''\<rparr>"

text \<open>
  A helium nucleus of rest mass 1 kg with the given Lorentz factor and step, and a
  monopole of Lorentz factor 2 that has turned by a right angle during its last step.
\<close>

definition helium :: "real \<Rightarrow> real \<Rightarrow> Candidate" where
  "helium lf step =
     \<lparr>current = \<lparr>id_ps = 1000020040, energy = (lf - 1) * c_squared, position = Vector3d 1 0 0,
                 direction = Vector3d 1 0 0, pmass = 1, charge = 2, mcharge = 0\<rparr>,
      previous = \<lparr>id_ps = 1000020040, energy = (lf - 1) * c_squared, position = Vector3d 0 0 0,
                 direction = Vector3d 1 0 0, pmass = 1, charge = 2, mcharge = 0\<rparr>,
      currentStep = step, nextStep = step, redshift = 0, active = True, weight = 1,
      stepRadiation = 0, secondaries = []\<rparr>"

definition turning_monopole :: Candidate where
  "turning_monopole =
     \<lparr>current = \<lparr>id_ps = 4110000, energy = c_squared, position = Vector3d 1 0 0,
                 direction = Vector3d 1 0 0, pmass = 1, charge = 0, mcharge = 1\<rparr>,
      previous = \<lparr>id_ps = 4110000, energy = c_squared, position = Vector3d 0 0 0,
                 direction = Vector3d 0 1 0, pmass = 1, charge = 0, mcharge = 1\<rparr>,
      currentStep = 1, nextStep = 1, redshift = 0, active = True, weight = 1,
      stepRadiation = 0, secondaries = []\<rparr>"

definition uniform_field :: "Vector3d \<Rightarrow> MagneticField" where
  "uniform_field B = (\<lambda>pos z. Inr B)"

definition linear_field :: MagneticField where
  "linear_field = (\<lambda>pos z. Inr (Vector3d (vx pos) 0 0))"

definition failing_field :: MagneticField where
  "failing_field = (\<lambda>pos z. Inl ''field undefined'')"

definition fixed_step :: "MagneticField option \<Rightarrow> real \<Rightarrow> MonopolePropagationBP" where
  "fixed_step fld h = \<lparr>field = fld, tolerance = 0.42, minStep = h, maxStep = h\<rparr>"

definition adaptive :: "MagneticField option \<Rightarrow> real \<Rightarrow> real \<Rightarrow> real \<Rightarrow> MonopolePropagationBP" where
  "adaptive fld tol lo hi = \<lparr>field = fld, tolerance = tol, minStep = lo, maxStep = hi\<rparr>"

section \<open>Facts about vectors and particle states\<close>

lemma c_light_pos: "0 < c_light"
  by (simp add: c_light_def)

lemma c_squared_pos: "0 < c_squared"
  by (simp add: c_squared_def c_light_def)

lemma getR_nonneg: "0 \<le> getR a"
  by (simp add: getR_def)

lemma getR_eq_0_iff: "getR a = 0 \<longleftrightarrow> a = zero3"
proof
  assume h: "getR a = 0"
  have nn: "0 \<le> vx a * vx a" "0 \<le> vy a * vy a" "0 \<le> vz a * vz a"
    by simp_all
  from h have s: "vx a * vx a + vy a * vy a + vz a * vz a = 0"
    by (simp add: getR_def)
  from s nn have "vx a * vx a = 0" "vy a * vy a = 0" "vz a * vz a = 0"
    by linarith+
  then have "vx a = 0" "vy a = 0" "vz a = 0"
    by simp_all
  then show "a = zero3"
    by (cases a) (simp add: zero3_def)
next
  assume "a = zero3"
  then show "getR a = 0"
    by (simp add: getR_def zero3_def)
qed

lemma getR_vdiv: "getR (vdiv a f) = getR a / \<bar>f\<bar>"
proof -
  have "vx a / f * (vx a / f) + vy a / f * (vy a / f) + vz a / f * (vz a / f)
        = (vx a * vx a + vy a * vy a + vz a * vz a) / (f * f)"
    by (simp add: add_divide_distrib)
  then show ?thesis
    by (simp add: getR_def vdiv_def real_sqrt_divide)
qed

lemma getR_normalised: "a \<noteq> zero3 \<Longrightarrow> getR (vdiv a (getR a)) = 1"
proof -
  assume "a \<noteq> zero3"
  then have "getR a \<noteq> 0"
    by (simp add: getR_eq_0_iff)
  then show ?thesis
    using getR_nonneg [of a] by (simp add: getR_vdiv)
qed

lemma setEnergy_nonneg: "0 \<le> energy (setEnergy e s)"
  by (simp add: setEnergy_def)


lemma clip_range: "lo \<le> hi \<Longrightarrow> lo \<le> clip x lo hi \<and> clip x lo hi \<le> hi"
  by (simp add: clip_def)

section \<open>Facts about the integrator\<close>

lemma fst_tryStep: "fst (tryStep Yd fld y h z m g) = dY fld (Y_x y) (Y_u y) h z g m"
  by (simp add: tryStep_def Let_def)

lemma adaptLoop_out:
  "adaptLoop n Yd P yIn z m g step newStep = Some (yOut, s, ns)
   \<Longrightarrow> yOut = fst (tryStep Yd (field P) yIn s z m g)"
proof (induction n arbitrary: step newStep)
  case 0
  then show ?case by simp
next
  case (Suc n)
  then show ?case
    by (auto simp: Let_def split: prod.splits if_splits)
qed

text \<open>
  What \<^verbatim>\<open>process\<close> leaves behind for a magnetically charged particle, in terms of the
  accepted phase point and step.
\<close>

lemma process_monopole:
  assumes "mcharge (current c) \<noteq> 0" "process fuel Yd P c = Some c'"
  shows "\<exists>yOut.
           yOut = dY (field P) (position (current c)) (direction (current c)) (currentStep c')
                    (redshift c) (mcharge (current c)) (energy (current c) / (c_light * c_light)) \<and>
           position (current c') = Y_x yOut \<and>
           direction (current c') = vdiv (getUnitVector (Y_u yOut)) (getR (getUnitVector (Y_u yOut))) \<and>
           energy (current c') = max 0 (energy (current c) + mcharge (current c) *
              dot (getFieldAtPosition (field P) (Y_x yOut) (redshift c))
                  (vscale (direction (current c')) (currentStep c')))"
proof (cases "minStep P = maxStep P")
  case True
  with assms show ?thesis
    by (auto simp: process_def Let_def setPosition_def setDirection_def setEnergy_def fst_tryStep)
next
  case False
  with assms obtain yOut step newStep where
    a: "adaptLoop fuel Yd P (Y (position (current c)) (direction (current c))) (redshift c)
          (energy (current c) / (c_light * c_light)) (mcharge (current c))
          (clip (nextStep c) (minStep P) (maxStep P)) (clip (nextStep c) (minStep P) (maxStep P))
        = Some (yOut, step, newStep)"
    by (auto simp: process_def Let_def split: option.splits)
  from adaptLoop_out [OF a]
  have y: "yOut = dY (field P) (position (current c)) (direction (current c)) step (redshift c)
                    (mcharge (current c)) (energy (current c) / (c_light * c_light))"
    by (simp add: fst_tryStep)
  from assms False a show ?thesis
    using y by (auto simp: process_def Let_def setPosition_def setDirection_def setEnergy_def)
qed

lemma powr_neg_ge_1: "0 < (r::real) \<Longrightarrow> r \<le> 1 \<Longrightarrow> 1 \<le> r powr (- 0.2)"
  using powr_mono2' [of "- 0.2" r 1] by simp

lemma powr_neg_le_1: "1 \<le> (r::real) \<Longrightarrow> r powr (- 0.2) \<le> 1"
  using powr_mono2' [of "- 0.2" 1 r] by simp

lemma shrinkStep_eq:
  "0 \<le> h \<Longrightarrow> shrinkStep h r minS = max (h * max (0.95 * r powr (- 0.2)) 0.1) minS"
  by (simp add: shrinkStep_def Let_def max_def mult_le_cancel_left algebra_simps)

lemma growStep_eq:
  "0 \<le> h \<Longrightarrow> r \<noteq> 0 \<Longrightarrow> growStep h r maxS = min (h * min (0.95 * r powr (- 0.2)) 5) maxS"
  by (simp add: growStep_def Let_def min_def mult_le_cancel_left algebra_simps)

lemma growStep_upper: "0 \<le> h \<Longrightarrow> growStep h r maxS \<le> 5 * h \<and> growStep h r maxS \<le> maxS"
  by (simp add: growStep_def Let_def min_le_iff_disj)

lemma growStep_lower:
  assumes "0 \<le> h" "h \<le> maxS" "0 \<le> r" "r \<le> 1"
  shows "0.95 * h \<le> growStep h r maxS"
proof (cases "r = 0")
  case True
  with assms show ?thesis by (simp add: growStep_def)
next
  case False
  with assms have "1 \<le> r powr (- 0.2)" using powr_neg_ge_1 [of r] by simp
  with assms have "h * 0.95 * 1 \<le> h * 0.95 * r powr (- 0.2)"
    by (intro mult_left_mono) simp_all
  with assms False show ?thesis by (simp add: growStep_def Let_def)
qed

text \<open>
  With a positive minimal step the loop leaves after finitely many attempts: every retry
  shrinks the step by the factor 0.95 at least, down to the minimal step, where the
  attempt is accepted whatever its error.
\<close>

lemma adaptLoop_terminates:
  assumes "0 < minStep P"
  shows "minStep P \<le> step \<Longrightarrow> step \<le> minStep P * (100 / 95) ^ k
         \<Longrightarrow> adaptLoop (Suc k) Yd P yIn z m g step ns \<noteq> None"
proof (induction k arbitrary: step ns)
  case 0
  then have "step = minStep P" by simp
  then show ?case by (simp add: Let_def split: prod.splits)
next
  case (Suc k)
  obtain yOut yErr where t: "tryStep Yd (field P) yIn step z m g = (yOut, yErr)"
    by (cases "tryStep Yd (field P) yIn step z m g")
  define r where "r = getR (Y_u yErr) / tolerance P"
  show ?case
  proof (cases "1 < r \<and> step \<noteq> minStep P")
    case False
    then show ?thesis using t r_def by (auto simp: Let_def)
  next
    case True
    define s' where "s' = shrinkStep step r (minStep P)"
    have stp: "0 \<le> step" using Suc.prems assms by linarith
    have lo: "minStep P \<le> s'" by (simp add: s'_def shrinkStep_def Let_def)
    have p1: "r powr (- 0.2) \<le> 1" using True powr_neg_le_1 [of r] by simp
    have "step * 0.95 * r powr (- 0.2) \<le> step * 0.95 * 1"
      using stp p1 by (intro mult_left_mono) simp_all
    then have a1: "step * 0.95 * r powr (- 0.2) \<le> step * 0.95" by simp
    have a2: "0.1 * step \<le> step * 0.95" using stp by simp
    have "step * 0.95 \<le> minStep P * (100 / 95) ^ Suc k * 0.95"
      using Suc.prems by simp
    then have a3: "step * 0.95 \<le> minStep P * (100 / 95) ^ k" by simp
    have "(1::real) \<le> (100 / 95) ^ k" by (rule one_le_power) simp
    then have a4: "minStep P \<le> minStep P * (100 / 95) ^ k"
      using assms by simp
    have hi: "s' \<le> minStep P * (100 / 95) ^ k"
      using a1 a2 a3 a4 by (simp add: s'_def shrinkStep_def Let_def)
    have "adaptLoop (Suc (Suc k)) Yd P yIn z m g step ns = adaptLoop (Suc k) Yd P yIn z m g s' s'"
      using True t r_def s'_def by (simp add: Let_def)
    with Suc.IH [OF lo hi] show ?thesis by simp
  qed
qed

lemma adaptLoop_fuel:
  assumes "0 < minStep P" "minStep P \<le> maxStep P"
  shows "\<exists>k. \<forall>Yd yIn z m g step ns. minStep P \<le> step \<and> step \<le> maxStep P
           \<longrightarrow> adaptLoop k Yd P yIn z m g step ns \<noteq> None"
proof -
  obtain k where k: "maxStep P / minStep P < (100 / 95) ^ k"
    using real_arch_pow [of "100 / 95" "maxStep P / minStep P"] by auto
  then have "maxStep P < minStep P * (100 / 95) ^ k"
    using assms by (simp add: pos_divide_less_eq mult.commute)
  then have "\<forall>Yd yIn z m g step ns. minStep P \<le> step \<and> step \<le> maxStep P
           \<longrightarrow> adaptLoop (Suc k) Yd P yIn z m g step ns \<noteq> None"
    using adaptLoop_terminates [OF assms(1)] by (metis less_eq_real_def order_trans)
  then show ?thesis by blast
qed

lemma process_total:
  assumes "0 < minStep P" "minStep P \<le> maxStep P"
  shows "\<exists>fuel. \<forall>Yd c. process fuel Yd P c \<noteq> None"
proof -
  from adaptLoop_fuel [OF assms] obtain k where
    k: "\<And>Yd yIn z m g step ns. minStep P \<le> step \<Longrightarrow> step \<le> maxStep P
           \<Longrightarrow> adaptLoop k Yd P yIn z m g step ns \<noteq> None"
    by blast
  have "\<forall>Yd c. process k Yd P c \<noteq> None"
  proof (intro allI)
    fix Yd and c :: Candidate
    have "adaptLoop k Yd P (Y (position (current c)) (direction (current c))) (redshift c)
            (energy (current c) / (c_light * c_light)) (mcharge (current c))
            (clip (nextStep c) (minStep P) (maxStep P)) (clip (nextStep c) (minStep P) (maxStep P))
          \<noteq> None"
      using k clip_range [OF assms(2), of "nextStep c"] by blast
    then show "process k Yd P c \<noteq> None"
      by (auto simp: process_def Let_def split: option.splits prod.splits)
  qed
  then show ?thesis by blast
qed

section \<open>Facts about the concrete runs\<close>

lemma getR_all: "getR (Vector3d f f f) = sqrt 3 * \<bar>f\<bar>"
proof -
  have "f * f + f * f + f * f = 3 * (f * f)" by simp
  then show ?thesis by (simp add: getR_def real_sqrt_mult del: distrib_right_numeral)
qed

lemma getR_x: "getR (Vector3d a 0 0) = \<bar>a\<bar>"
  by (simp add: getR_def)

lemma tryStep_linear:
  "tryStep Y_of_double (Some linear_field) (Y (Vector3d 0 0 0) (Vector3d 1 0 0)) 1 0 (1 / (c_light * c_light)) 1
   = (Y (Vector3d (5 / 4) 0 0) (Vector3d (3 / 2) 0 0), Y_of_double (7 / 96))"
  by (simp add: tryStep_def dY_def Let_def linear_field_def getFieldAtPosition_def vadd_def vscale_def
      vdiv_def vsub_def c_squared_def c_light_def errorEstimation_def getR_x)

section \<open>Step control of the adaptive integrator (C1)\<close>

text \<open>
  C1, as amended. In adaptive mode and for a magnetically charged candidate, the step
  accepted by the loop of \<^verbatim>\<open>process\<close> and its proposal become the current and the
  next step of the candidate. One pass of the loop at the step \<open>h\<close>, with \<open>r\<close> the
  norm of the direction part of the error value over the tolerance: if \<open>r > 1\<close> and
  \<open>h\<close> is the minimal step, the attempt is accepted with the proposal \<open>h\<close>; if
  \<open>r > 1\<close> and \<open>h\<close> is not the minimal step, the loop retries at
  \<open>max (h * max (0.95 * r^-0.2) 0.1) minStep\<close>; if \<open>r \<le> 1\<close> the attempt is accepted,
  and the proposal is \<open>h\<close> when \<open>h\<close> is the maximal step and otherwise
  \<open>min (h * min (0.95 * r^-0.2) 5) maxStep\<close> (with the factor 5 at \<open>r = 0\<close>). The
  proposal is at most \<open>5 h\<close> and at most the maximal step, and at least \<open>0.95 h\<close>: the
  code has no lower clamp at \<open>h\<close>, so the proposal is below the accepted step when
  \<open>0.95 * r^-0.2 < 1\<close>.
\<close>

theorem adaptive_step_control:
  assumes hpos: "0 < h" and hmax: "h \<le> maxStep P" and tol: "0 < tolerance P" and mpos: "0 < m"
    and ts: "tryStep Yd (field P) yIn h z m g = (yOut, yErr)"
    and r: "r = getR (Y_u yErr) / tolerance P"
  shows "(1 < r \<and> h = minStep P \<longrightarrow>
            adaptLoop (Suc n) Yd P yIn z m g h h = Some (yOut, h, h)) \<and>
         (1 < r \<and> h \<noteq> minStep P \<longrightarrow>
            adaptLoop (Suc n) Yd P yIn z m g h h =
              adaptLoop n Yd P yIn z m g
                (max (h * max (0.95 * r powr (- 0.2)) 0.1) (minStep P))
                (max (h * max (0.95 * r powr (- 0.2)) 0.1) (minStep P))) \<and>
         (r \<le> 1 \<longrightarrow>
            (\<exists>p. adaptLoop (Suc n) Yd P yIn z m g h h = Some (yOut, h, p) \<and>
                 p = (if h = maxStep P then h
                      else if r = 0 then min (5 * h) (maxStep P)
                      else min (h * min (0.95 * r powr (- 0.2)) 5) (maxStep P)) \<and>
                 0.95 * h \<le> p \<and> p \<le> 5 * h \<and> p \<le> maxStep P)) \<and>
         (mcharge (current c) \<noteq> 0 \<and> minStep P \<noteq> maxStep P \<and>
          adaptLoop fuel Yd P (Y (position (current c)) (direction (current c))) (redshift c)
            (energy (current c) / (c_light * c_light)) (mcharge (current c))
            (clip (nextStep c) (minStep P) (maxStep P)) (clip (nextStep c) (minStep P) (maxStep P))
            = Some (yAcc, hAcc, hNext) \<longrightarrow>
            (\<exists>c'. process fuel Yd P c = Some c' \<and> currentStep c' = hAcc \<and>
                  nextStep c' = hNext \<and> position (current c') = Y_x yAcc))"
proof -
  have h0: "0 \<le> h" using hpos by simp
  have r0: "0 \<le> r" using tol r by (simp add: getR_nonneg)
  have unf: "adaptLoop (Suc n) Yd P yIn z m g h h =
      (if 1 < r then
         (if h = minStep P then Some (yOut, h, h)
          else adaptLoop n Yd P yIn z m g (shrinkStep h r (minStep P)) (shrinkStep h r (minStep P)))
       else Some (yOut, h, if h \<noteq> maxStep P then growStep h r (maxStep P) else h))"
    using ts r by (simp add: Let_def)
  have a: "1 < r \<and> h = minStep P \<longrightarrow> adaptLoop (Suc n) Yd P yIn z m g h h = Some (yOut, h, h)"
    using unf by (auto simp del: adaptLoop.simps)
  have b: "1 < r \<and> h \<noteq> minStep P \<longrightarrow>
            adaptLoop (Suc n) Yd P yIn z m g h h =
              adaptLoop n Yd P yIn z m g
                (max (h * max (0.95 * r powr (- 0.2)) 0.1) (minStep P))
                (max (h * max (0.95 * r powr (- 0.2)) 0.1) (minStep P))"
    using unf shrinkStep_eq [OF h0, of r "minStep P"] by (simp del: adaptLoop.simps)
  have c: "r \<le> 1 \<longrightarrow>
            (\<exists>p. adaptLoop (Suc n) Yd P yIn z m g h h = Some (yOut, h, p) \<and>
                 p = (if h = maxStep P then h
                      else if r = 0 then min (5 * h) (maxStep P)
                      else min (h * min (0.95 * r powr (- 0.2)) 5) (maxStep P)) \<and>
                 0.95 * h \<le> p \<and> p \<le> 5 * h \<and> p \<le> maxStep P)"
  proof
    assume r1: "r \<le> 1"
    show "\<exists>p. adaptLoop (Suc n) Yd P yIn z m g h h = Some (yOut, h, p) \<and>
                 p = (if h = maxStep P then h
                      else if r = 0 then min (5 * h) (maxStep P)
                      else min (h * min (0.95 * r powr (- 0.2)) 5) (maxStep P)) \<and>
                 0.95 * h \<le> p \<and> p \<le> 5 * h \<and> p \<le> maxStep P"
    proof (cases "h = maxStep P")
      case True
      with unf r1 h0 hmax show ?thesis by (auto simp del: adaptLoop.simps)
    next
      case False
      have e: "adaptLoop (Suc n) Yd P yIn z m g h h = Some (yOut, h, growStep h r (maxStep P))"
        using unf r1 False by (simp del: adaptLoop.simps)
      have f: "growStep h r (maxStep P) = (if r = 0 then min (5 * h) (maxStep P)
                      else min (h * min (0.95 * r powr (- 0.2)) 5) (maxStep P))"
        using h0 by (simp add: growStep_eq) (simp add: growStep_def)
      show ?thesis
        using e f False growStep_upper [OF h0, of r "maxStep P"] growStep_lower [OF h0 hmax r0 r1]
        by (simp del: adaptLoop.simps)
    qed
  qed
  have d: "mcharge (current c) \<noteq> 0 \<and> minStep P \<noteq> maxStep P \<and>
          adaptLoop fuel Yd P (Y (position (current c)) (direction (current c))) (redshift c)
            (energy (current c) / (c_light * c_light)) (mcharge (current c))
            (clip (nextStep c) (minStep P) (maxStep P)) (clip (nextStep c) (minStep P) (maxStep P))
            = Some (yAcc, hAcc, hNext) \<longrightarrow>
            (\<exists>c'. process fuel Yd P c = Some c' \<and> currentStep c' = hAcc \<and>
                  nextStep c' = hNext \<and> position (current c') = Y_x yAcc)"
    by (simp add: process_def Let_def setPosition_def setDirection_def setEnergy_def)
  from a b c d show ?thesis by blast
qed

theorem adaptive_step_control_witness:
  "adaptLoop 1 Y_of_double (adaptive (Some linear_field) (sqrt 3 * 7 / 960) 1 10)
       (Y (Vector3d 0 0 0) (Vector3d 1 0 0)) 0 (1 / (c_light * c_light)) 1 1 1
     = Some (Y (Vector3d (5 / 4) 0 0) (Vector3d (3 / 2) 0 0), 1, 1) \<and>
   adaptLoop 1 Y_of_double (adaptive (Some linear_field) (sqrt 3 * 7 / 960) (1 / 10) 10)
       (Y (Vector3d 0 0 0) (Vector3d 1 0 0)) 0 (1 / (c_light * c_light)) 1 1 1
     = adaptLoop 0 Y_of_double (adaptive (Some linear_field) (sqrt 3 * 7 / 960) (1 / 10) 10)
       (Y (Vector3d 0 0 0) (Vector3d 1 0 0)) 0 (1 / (c_light * c_light)) 1
       (max (1 * max (0.95 * 10 powr (- 0.2)) 0.1) (1 / 10))
       (max (1 * max (0.95 * 10 powr (- 0.2)) 0.1) (1 / 10)) \<and>
   adaptLoop 1 Y_of_double (adaptive (Some linear_field) (sqrt 3 * 7 / 96) (1 / 10) 10)
       (Y (Vector3d 0 0 0) (Vector3d 1 0 0)) 0 (1 / (c_light * c_light)) 1 1 1
     = Some (Y (Vector3d (5 / 4) 0 0) (Vector3d (3 / 2) 0 0), 1, 95 / 100) \<and>
   (\<exists>c'. process 1 Y_of_double (adaptive (Some linear_field) (sqrt 3 * 7 / 96) (1 / 10) 10) monopole
           = Some c' \<and>
         currentStep c' = 1 \<and> nextStep c' = 95 / 100 \<and>
         position (current c') = Vector3d (5 / 4) 0 0)"
proof -
  let ?y = "Y (Vector3d 0 0 0) (Vector3d 1 0 0)"
  let ?out = "Y (Vector3d (5 / 4) 0 0) (Vector3d (3 / 2) 0 0)"
  let ?P1 = "adaptive (Some linear_field) (sqrt 3 * 7 / 960) 1 10"
  let ?P2 = "adaptive (Some linear_field) (sqrt 3 * 7 / 960) (1 / 10) 10"
  let ?P3 = "adaptive (Some linear_field) (sqrt 3 * 7 / 96) (1 / 10) 10"
  have h0: "(0::real) < 1" by simp
  have mp: "0 < 1 / (c_light * c_light)" by (simp add: c_light_def)
  have m1: "1 \<le> maxStep ?P1" and m2: "1 \<le> maxStep ?P2" and m3: "1 \<le> maxStep ?P3"
    by (simp_all add: adaptive_def)
  have t1: "0 < tolerance ?P1" and t2: "0 < tolerance ?P2" and t3: "0 < tolerance ?P3"
    by (simp_all add: adaptive_def)
  have s1: "tryStep Y_of_double (field ?P1) ?y 1 0 (1 / (c_light * c_light)) 1
              = (?out, Y_of_double (7 / 96))"
    and s2: "tryStep Y_of_double (field ?P2) ?y 1 0 (1 / (c_light * c_light)) 1
              = (?out, Y_of_double (7 / 96))"
    and s3: "tryStep Y_of_double (field ?P3) ?y 1 0 (1 / (c_light * c_light)) 1
              = (?out, Y_of_double (7 / 96))"
    by (simp_all add: adaptive_def tryStep_linear)
  have r1: "10 = getR (Y_u (Y_of_double (7 / 96))) / tolerance ?P1"
    and r2: "10 = getR (Y_u (Y_of_double (7 / 96))) / tolerance ?P2"
    and r3: "1 = getR (Y_u (Y_of_double (7 / 96))) / tolerance ?P3"
    by (simp_all add: adaptive_def Y_of_double_def getR_all)
  have a: "adaptLoop 1 Y_of_double ?P1 ?y 0 (1 / (c_light * c_light)) 1 1 1 = Some (?out, 1, 1)"
    using adaptive_step_control [OF h0 m1 t1 mp s1 r1, where n = 0 and c = monopole and fuel = 1
        and yAcc = ?out and hAcc = 1 and hNext = "95 / 100"]
    by (simp add: adaptive_def del: adaptLoop.simps)
  have b: "adaptLoop 1 Y_of_double ?P2 ?y 0 (1 / (c_light * c_light)) 1 1 1
     = adaptLoop 0 Y_of_double ?P2 ?y 0 (1 / (c_light * c_light)) 1
       (max (1 * max (0.95 * 10 powr (- 0.2)) 0.1) (1 / 10))
       (max (1 * max (0.95 * 10 powr (- 0.2)) 0.1) (1 / 10))"
    using adaptive_step_control [OF h0 m2 t2 mp s2 r2, where n = 0 and c = monopole and fuel = 1
        and yAcc = ?out and hAcc = 1 and hNext = "95 / 100"]
    by (simp add: adaptive_def del: adaptLoop.simps)
  have c: "adaptLoop 1 Y_of_double ?P3 ?y 0 (1 / (c_light * c_light)) 1 1 1
             = Some (?out, 1, 95 / 100)"
    using adaptive_step_control [OF h0 m3 t3 mp s3 r3, where n = 0 and c = monopole and fuel = 1
        and yAcc = ?out and hAcc = 1 and hNext = "95 / 100"]
    by (auto simp: adaptive_def simp del: adaptLoop.simps)
  have g: "mcharge (current monopole) \<noteq> 0 \<and> minStep ?P3 \<noteq> maxStep ?P3"
    by (simp add: monopole_def heavy_state_def adaptive_def)
  have l: "adaptLoop 1 Y_of_double ?P3 (Y (position (current monopole)) (direction (current monopole)))
            (redshift monopole) (energy (current monopole) / (c_light * c_light))
            (mcharge (current monopole))
            (clip (nextStep monopole) (minStep ?P3) (maxStep ?P3))
            (clip (nextStep monopole) (minStep ?P3) (maxStep ?P3))
         = Some (?out, 1, 95 / 100)"
  proof -
    have "clip (nextStep monopole) (minStep ?P3) (maxStep ?P3) = 1"
      by (simp add: monopole_def adaptive_def clip_def)
    moreover have "Y (position (current monopole)) (direction (current monopole)) = ?y"
      "redshift monopole = 0" "energy (current monopole) = 1"
      "mcharge (current monopole) = 1"
      by (simp_all add: monopole_def heavy_state_def)
    ultimately show ?thesis using c by (simp del: adaptLoop.simps)
  qed
  have d: "\<exists>c'. process 1 Y_of_double ?P3 monopole = Some c' \<and>
         currentStep c' = 1 \<and> nextStep c' = 95 / 100 \<and>
         position (current c') = Vector3d (5 / 4) 0 0"
    using adaptive_step_control [OF h0 m3 t3 mp s3 r3, where n = 0 and c = monopole and fuel = 1
        and yAcc = ?out and hAcc = 1 and hNext = "95 / 100"] g l
    by (simp del: adaptLoop.simps)
  from a b c d show ?thesis by blast
qed

text \<open>
  The claim as stated has the proposal \<open>clamp (h * min (0.95 * r^-0.2) 5) h maxStep\<close>,
  never below \<open>h\<close>. At \<open>r = 1\<close>, \<open>h = 1\<close> and the maximal step 10 the code proposes
  0.95, the formula of the claim 1.
\<close>

theorem proposal_below_accepted_step:
  "growStep 1 1 10 = 95 / 100 \<and> spec_nextStep 1 1 10 = 1 \<and> growStep 1 1 10 < 1"
  by (simp add: growStep_def spec_nextStep_def clip_def)

section \<open>The error estimate (C2)\<close>

text \<open>
  C2. For every attempted step \<open>h\<close>, tryStep returns as \<^verbatim>\<open>out\<close> one application of
  \<^verbatim>\<open>dY\<close> with the step \<open>h\<close>, and its error value is built from the number
  \<open>|out.x - compare.x| / (h (1 - 1/4))\<close>, where \<^verbatim>\<open>compare\<close> is \<^verbatim>\<open>dY\<close> applied twice
  with the step \<open>h / 2\<close>, the second time from the result of the first; errorEstimation
  is that formula.
\<close>

theorem tryStep_error_estimate:
  "fst (tryStep Yd fld y h z m g) = dY fld (Y_x y) (Y_u y) h z g m \<and>
   snd (tryStep Yd fld y h z m g) =
     Yd (spec_errorEstimate
           (Y_x (dY fld (Y_x y) (Y_u y) h z g m))
           (Y_x (dY fld (Y_x (dY fld (Y_x y) (Y_u y) (h / 2) z g m))
                        (Y_u (dY fld (Y_x y) (Y_u y) (h / 2) z g m)) (h / 2) z g m))
           h) \<and>
   errorEstimation x1 x2 h = spec_errorEstimate x1 x2 h"
  by (simp add: tryStep_def Let_def errorEstimation_def spec_errorEstimate_def)

section \<open>Energy of a monopole after the step (C5)\<close>



section \<open>The direction is a unit vector (C6)\<close>

lemma unit_ne_zero: "getR a = 1 \<Longrightarrow> a \<noteq> zero3"
  using getR_eq_0_iff [of a] by auto

lemma process_neutral:
  "mcharge (current c) = 0 \<Longrightarrow>
   process fuel Yd P c =
     Some (c\<lparr>previous := current c,
             current := (current c)\<lparr>position :=
                 vadd (position (current c))
                      (vscale (direction (current c)) (clip (nextStep c) (minStep P) (maxStep P)))\<rparr>,
             currentStep := clip (nextStep c) (minStep P) (maxStep P),
             nextStep := maxStep P\<rparr>)"
  by (simp add: process_def Let_def setPosition_def)

text \<open>
  C6, as amended. setDirection leaves a vector of length 1 for every argument but the
  zero vector. After a call of the integrator on a magnetically charged candidate of
  positive energy the direction has length 1 whenever the direction pushed by the Boris
  step at the accepted step is not the zero vector; the integrator leaves the direction
  of a candidate without magnetic charge as it was.
\<close>

theorem direction_unit:
  "(dir \<noteq> zero3 \<longrightarrow> getR (direction (setDirection dir s)) = 1) \<and>
   (process fuel Yd P c = Some c' \<longrightarrow>
      (mcharge (current c) = 0 \<longrightarrow> direction (current c') = direction (current c)) \<and>
      (mcharge (current c) \<noteq> 0 \<and> 0 < energy (current c) \<and>
       Y_u (dY (field P) (position (current c)) (direction (current c)) (currentStep c')
              (redshift c) (mcharge (current c)) (energy (current c) / (c_light * c_light)))
         \<noteq> zero3
       \<longrightarrow> getR (direction (current c')) = 1))"
proof -
  have a: "dir \<noteq> zero3 \<longrightarrow> getR (direction (setDirection dir s)) = 1"
    by (simp add: setDirection_def getR_normalised)
  have b: "process fuel Yd P c = Some c' \<longrightarrow> mcharge (current c) = 0
             \<longrightarrow> direction (current c') = direction (current c)"
    by (auto simp: process_neutral)
  have d: "process fuel Yd P c = Some c' \<longrightarrow>
      mcharge (current c) \<noteq> 0 \<and> 0 < energy (current c) \<and>
       Y_u (dY (field P) (position (current c)) (direction (current c)) (currentStep c')
              (redshift c) (mcharge (current c)) (energy (current c) / (c_light * c_light)))
         \<noteq> zero3
       \<longrightarrow> getR (direction (current c')) = 1"
  proof (intro impI, elim conjE)
    assume p: "process fuel Yd P c = Some c'" and g: "mcharge (current c) \<noteq> 0"
      and nz: "Y_u (dY (field P) (position (current c)) (direction (current c)) (currentStep c')
              (redshift c) (mcharge (current c)) (energy (current c) / (c_light * c_light)))
         \<noteq> zero3"
    let ?u = "Y_u (dY (field P) (position (current c)) (direction (current c)) (currentStep c')
              (redshift c) (mcharge (current c)) (energy (current c) / (c_light * c_light)))"
    from process_monopole [OF g p]
    have dd: "direction (current c') = vdiv (getUnitVector ?u) (getR (getUnitVector ?u))"
      by auto
    have "getR (getUnitVector ?u) = 1"
      using nz by (simp add: getUnitVector_def getR_normalised)
    then have "getUnitVector ?u \<noteq> zero3" by (rule unit_ne_zero)
    then show "getR (direction (current c')) = 1"
      by (simp add: dd getR_normalised)
  qed
  from a b d show ?thesis by blast
qed

theorem direction_unit_witness:
  "Vector3d 3 4 0 \<noteq> zero3 \<and>
   getR (direction (setDirection (Vector3d 3 4 0) heavy_state)) = 1 \<and>
   (\<exists>c'. process 0 Y_of_double (fixed_step (Some (uniform_field (Vector3d 1 0 0))) 1) monopole = Some c' \<and>
         getR (direction (current c')) = 1) \<and>
   (\<exists>c'. process 0 Y_of_double (fixed_step None 1) photon = Some c' \<and>
         direction (current c') = direction (current photon))"
proof -
  let ?P = "fixed_step (Some (uniform_field (Vector3d 1 0 0))) 1"
  have nz: "Vector3d 3 4 0 \<noteq> zero3" by (simp add: zero3_def)
  have a: "getR (direction (setDirection (Vector3d 3 4 0) heavy_state)) = 1"
    using direction_unit [where dir = "Vector3d 3 4 0" and s = heavy_state and fuel = 0
        and Yd = Y_of_double and P = ?P and c = monopole and c' = monopole] nz
    by blast
  obtain c1 where c1: "process 0 Y_of_double ?P monopole = Some c1" "currentStep c1 = 1"
    by (simp add: process_def monopole_def fixed_step_def heavy_state_def Let_def)
  have g: "mcharge (current monopole) \<noteq> 0 \<and> 0 < energy (current monopole)"
    by (simp add: monopole_def heavy_state_def)
  have u: "Y_u (dY (field ?P) (position (current monopole)) (direction (current monopole))
              (currentStep c1) (redshift monopole) (mcharge (current monopole))
              (energy (current monopole) / (c_light * c_light))) \<noteq> zero3"
    by (simp add: c1(2) dY_def Let_def monopole_def heavy_state_def fixed_step_def uniform_field_def
        getFieldAtPosition_def vadd_def vscale_def vdiv_def c_squared_def c_light_def zero3_def)
  have b: "getR (direction (current c1)) = 1"
    using direction_unit [where dir = "Vector3d 3 4 0" and s = heavy_state and fuel = 0
        and Yd = Y_of_double and P = ?P and c = monopole and c' = c1] c1(1) g u
    by blast
  obtain c2 where c2: "process 0 Y_of_double (fixed_step None 1) photon = Some c2"
    by (simp add: process_def photon_def Let_def)
  have n: "mcharge (current photon) = 0" by (simp add: photon_def)
  have d: "direction (current c2) = direction (current photon)"
    using direction_unit [where dir = "Vector3d 3 4 0" and s = heavy_state and fuel = 0
        and Yd = Y_of_double and P = "fixed_step None 1" and c = photon and c' = c2] c2 n
    by blast
  from nz a b c1(1) c2 d show ?thesis by blast
qed

text \<open>
  The claim as stated covers every argument of setDirection. The zero vector has the
  length 0, and the quotient has not the length 1 (in the C++ arithmetic every
  component is 0/0).
\<close>

theorem setDirection_zero_not_unit:
  "getR (direction (setDirection (Vector3d 0 0 0) heavy_state)) \<noteq> 1"
  by (simp add: setDirection_def vdiv_def getR_def)

section \<open>A failing field sample is a zero field (C10)\<close>

lemma getField_zero_on_failure:
  "getFieldAtPosition (Some (zero_on_failure f)) = getFieldAtPosition (Some f)"
  by (auto simp: getFieldAtPosition_def zero_on_failure_def fun_eq_iff split: sum.splits)

lemma dY_field_cong:
  "getFieldAtPosition f1 = getFieldAtPosition f2 \<Longrightarrow> dY f1 = dY f2"
  by (simp add: dY_def fun_eq_iff)

lemma tryStep_field_cong:
  assumes "getFieldAtPosition f1 = getFieldAtPosition f2"
  shows "tryStep Yd f1 = tryStep Yd f2"
proof -
  have "dY f1 = dY f2" using assms by (rule dY_field_cong)
  then show ?thesis by (simp add: tryStep_def fun_eq_iff)
qed

lemma adaptLoop_field_cong:
  assumes "getFieldAtPosition (field P1) = getFieldAtPosition (field P2)"
    "tolerance P1 = tolerance P2" "minStep P1 = minStep P2" "maxStep P1 = maxStep P2"
  shows "adaptLoop n Yd P1 yIn z m g step ns = adaptLoop n Yd P2 yIn z m g step ns"
proof (induction n arbitrary: step ns)
  case 0
  show ?case by simp
next
  case (Suc n)
  show ?case
    using assms Suc.IH tryStep_field_cong [OF assms(1), of Yd]
    by (simp add: Let_def split: prod.splits)
qed

lemma process_field_cong:
  assumes "getFieldAtPosition (field P1) = getFieldAtPosition (field P2)"
    "tolerance P1 = tolerance P2" "minStep P1 = minStep P2" "maxStep P1 = maxStep P2"
  shows "process fuel Yd P1 c = process fuel Yd P2 c"
  using assms adaptLoop_field_cong [OF assms, of fuel Yd] tryStep_field_cong [OF assms(1), of Yd]
  by (simp add: process_def Let_def)

text \<open>
  C10. For every position and redshift getFieldAtPosition returns the zero vector when
  the field is invalid or its evaluation throws. A step of the integrator with a field
  is therefore the step with the field that is zero wherever the given one throws, and
  with a positive minimal step the step returns a candidate for every field, failing or
  not, after finitely many attempts.
\<close>

theorem field_failure_is_zero_field:
  "(fld = None \<or> (\<exists>f e. fld = Some f \<and> f pos z = Inl e)
      \<longrightarrow> getFieldAtPosition fld pos z = Vector3d 0 0 0) \<and>
   process fuel Yd (P\<lparr>field := Some f\<rparr>) c
     = process fuel Yd (P\<lparr>field := Some (zero_on_failure f)\<rparr>) c \<and>
   (0 < minStep P \<and> minStep P \<le> maxStep P
      \<longrightarrow> (\<exists>n. \<forall>Yd' c'. process n Yd' (P\<lparr>field := Some f\<rparr>) c' \<noteq> None))"
proof -
  have a: "fld = None \<or> (\<exists>f e. fld = Some f \<and> f pos z = Inl e)
      \<longrightarrow> getFieldAtPosition fld pos z = Vector3d 0 0 0"
    by (auto simp: getFieldAtPosition_def)
  have b: "process fuel Yd (P\<lparr>field := Some f\<rparr>) c
     = process fuel Yd (P\<lparr>field := Some (zero_on_failure f)\<rparr>) c"
    by (rule process_field_cong) (simp_all add: getField_zero_on_failure)
  have c: "0 < minStep P \<and> minStep P \<le> maxStep P
      \<longrightarrow> (\<exists>n. \<forall>Yd' c'. process n Yd' (P\<lparr>field := Some f\<rparr>) c' \<noteq> None)"
    using process_total [of "P\<lparr>field := Some f\<rparr>"] by simp
  from a b c show ?thesis by blast
qed

theorem field_failure_is_zero_field_witness:
  "getFieldAtPosition None (Vector3d 1 2 3) 0 = Vector3d 0 0 0 \<and>
   failing_field (Vector3d 1 2 3) 0 = Inl ''field undefined'' \<and>
   getFieldAtPosition (Some failing_field) (Vector3d 1 2 3) 0 = Vector3d 0 0 0 \<and>
   process 1 Y_of_double (adaptive (Some failing_field) (1 / 10) (1 / 10) 10) monopole
     = process 1 Y_of_double (adaptive (Some (zero_on_failure failing_field)) (1 / 10) (1 / 10) 10) monopole \<and>
   (\<exists>n. \<forall>Yd' c'. process n Yd' (adaptive (Some failing_field) (1 / 10) (1 / 10) 10) c' \<noteq> None)"
proof -
  let ?P = "adaptive None (1 / 10) (1 / 10) 10"
  have e: "failing_field (Vector3d 1 2 3) 0 = Inl ''field undefined''"
    by (simp add: failing_field_def)
  have u: "\<And>g. ?P\<lparr>field := Some g\<rparr> = adaptive (Some g) (1 / 10) (1 / 10) 10"
    by (simp add: adaptive_def)
  have r: "0 < minStep ?P \<and> minStep ?P \<le> maxStep ?P"
    by (simp add: adaptive_def)
  have a: "getFieldAtPosition None (Vector3d 1 2 3) 0 = Vector3d 0 0 0"
    using field_failure_is_zero_field [where fld = None and pos = "Vector3d 1 2 3" and z = 0
        and fuel = 1 and Yd = Y_of_double and P = ?P and f = failing_field and c = monopole]
    by simp
  have b: "getFieldAtPosition (Some failing_field) (Vector3d 1 2 3) 0 = Vector3d 0 0 0 \<and>
   process 1 Y_of_double (adaptive (Some failing_field) (1 / 10) (1 / 10) 10) monopole
     = process 1 Y_of_double (adaptive (Some (zero_on_failure failing_field)) (1 / 10) (1 / 10) 10) monopole \<and>
   (\<exists>n. \<forall>Yd' c'. process n Yd' (adaptive (Some failing_field) (1 / 10) (1 / 10) 10) c' \<noteq> None)"
    using field_failure_is_zero_field [where fld = "Some failing_field" and pos = "Vector3d 1 2 3"
        and z = 0 and fuel = 1 and Yd = Y_of_double and P = ?P and f = failing_field and c = monopole]
      e r
    unfolding u by blast
  from a b e show ?thesis by blast
qed

section \<open>Neutral particles move on straight lines (C8)\<close>

lemma ES_process_not_nucleus:
  "\<not> isNucleus (id_ps (current c)) \<Longrightarrow> ES_process E c draws = Inr (c, draws)"
  by (simp add: ES_process_def Let_def)

lemma MR_process_neutral: "mcharge (current c) = 0 \<Longrightarrow> MR_process M c = Inr c"
  by (simp add: MR_process_def Let_def)

lemma simulationStep_neutral:
  assumes "mcharge (current c) = 0" "\<not> isNucleus (id_ps (current c))"
  shows "simulationStep fuel Yd P E M (c, draws) =
     Some (c\<lparr>previous := current c,
             current := (current c)\<lparr>position :=
                 vadd (position (current c))
                      (vscale (direction (current c)) (clip (nextStep c) (minStep P) (maxStep P)))\<rparr>,
             currentStep := clip (nextStep c) (minStep P) (maxStep P),
             nextStep := maxStep P\<rparr>, draws)"
  using assms
  by (simp add: simulationStep_def process_neutral ES_process_not_nucleus MR_process_neutral)

lemma vadd_vscale_step:
  "vadd (vadd p (vscale d h)) (vscale d (real n * h)) = vadd p (vscale d (real (Suc n) * h))"
  by (simp add: vadd_def vscale_def algebra_simps)

lemma simulate_neutral:
  assumes "minStep P = maxStep P"
  shows "mcharge (current c) = 0 \<Longrightarrow> \<not> isNucleus (id_ps (current c)) \<Longrightarrow>
         \<exists>c'. simulate n fuel Yd P E M (c, draws) = Some (c', draws) \<and>
              position (current c') = vadd (position (current c))
                                           (vscale (direction (current c)) (real n * maxStep P)) \<and>
              direction (current c') = direction (current c) \<and>
              energy (current c') = energy (current c) \<and>
              secondaries c' = secondaries c"
proof (induction n arbitrary: c)
  case 0
  then show ?case by (cases "position (current c)") (simp add: vadd_def vscale_def)
next
  case (Suc n)
  let ?c1 = "c\<lparr>previous := current c,
             current := (current c)\<lparr>position :=
                 vadd (position (current c)) (vscale (direction (current c)) (maxStep P))\<rparr>,
             currentStep := maxStep P, nextStep := maxStep P\<rparr>"
  have s: "simulationStep fuel Yd P E M (c, draws) = Some (?c1, draws)"
    using simulationStep_neutral [OF Suc.prems, of fuel Yd P E M draws] assms
    by (simp add: clip_def)
  have "mcharge (current ?c1) = 0" "\<not> isNucleus (id_ps (current ?c1))"
    using Suc.prems by simp_all
  from Suc.IH [OF this] obtain c' where
    c': "simulate n fuel Yd P E M (?c1, draws) = Some (c', draws)"
        "position (current c') = vadd (position (current ?c1))
                                           (vscale (direction (current ?c1)) (real n * maxStep P))"
        "direction (current c') = direction (current ?c1)"
        "energy (current c') = energy (current ?c1)"
        "secondaries c' = secondaries ?c1"
    by blast
  have "simulate (Suc n) fuel Yd P E M (c, draws) = Some (c', draws)"
    using s c'(1) by simp
  moreover have "position (current c') = vadd (position (current c))
                                           (vscale (direction (current c)) (real (Suc n) * maxStep P))"
    using c'(2) vadd_vscale_step [of "position (current c)" "direction (current c)" "maxStep P" n]
    by simp
  ultimately show ?case using c'(3,4,5) by simp
qed

text \<open>
  C8. For a candidate without magnetic charge one call of the integrator advances the
  position by the direction times the step \<open>clip (nextStep, minStep, maxStep)\<close> and
  changes neither direction nor energy, the monopole radiation leaves the candidate as
  it is, and so does the elastic scattering unless the particle is a nucleus. With
  \<open>minStep = maxStep = h\<close>, \<open>n\<close> steps of the pipeline end at
  \<open>position + n h direction\<close> with the direction, the energy and the list of
  secondaries unchanged. The scenario of the claim is the witness: a photon at the
  origin, direction \<open>(1, 0, 0)\<close>, \<open>h = 1\<close>, a zero field, 10 steps, ending at
  \<open>(10, 0, 0)\<close>.
\<close>

theorem neutral_rectilinear:
  assumes "mcharge (current c) = 0"
  shows "process fuel Yd P c =
           Some (c\<lparr>previous := current c,
                   current := (current c)\<lparr>position :=
                       vadd (position (current c))
                            (vscale (direction (current c))
                                    (clip (nextStep c) (minStep P) (maxStep P)))\<rparr>,
                   currentStep := clip (nextStep c) (minStep P) (maxStep P),
                   nextStep := maxStep P\<rparr>) \<and>
         MR_process M c = Inr c \<and>
         (\<not> isNucleus (id_ps (current c)) \<longrightarrow> ES_process E c draws = Inr (c, draws)) \<and>
         (\<not> isNucleus (id_ps (current c)) \<and> minStep P = maxStep P \<longrightarrow>
            (\<exists>c'. simulate n fuel Yd P E M (c, draws) = Some (c', draws) \<and>
                  position (current c') = vadd (position (current c))
                                               (vscale (direction (current c)) (real n * maxStep P)) \<and>
                  direction (current c') = direction (current c) \<and>
                  energy (current c') = energy (current c) \<and>
                  secondaries c' = secondaries c))"
  using assms simulate_neutral [of P c n fuel Yd E M draws]
  by (simp add: process_neutral MR_process_neutral ES_process_not_nucleus)

theorem neutral_rectilinear_witness:
  "mcharge (current photon) = 0 \<and> id_ps (current photon) = 22 \<and>
   position (current photon) = Vector3d 0 0 0 \<and> direction (current photon) = Vector3d 1 0 0 \<and>
   (\<exists>c'. simulate 10 0 Y_of_double (fixed_step (Some (uniform_field (Vector3d 0 0 0))) 1)
            ES_example MR_example (photon, []) = Some (c', []) \<and>
         position (current c') = Vector3d 10 0 0 \<and>
         direction (current c') = Vector3d 1 0 0 \<and>
         energy (current c') = energy (current photon) \<and>
         secondaries c' = [])"
proof -
  let ?P = "fixed_step (Some (uniform_field (Vector3d 0 0 0))) 1"
  have g: "mcharge (current photon) = 0" by (simp add: photon_def)
  have nn: "\<not> isNucleus (id_ps (current photon)) \<and> minStep ?P = maxStep ?P"
    by (simp add: photon_def isNucleus_def HepPID_isNucleus_def fixed_step_def)
  from neutral_rectilinear [OF g, of 0 Y_of_double ?P MR_example ES_example "[]" 10] nn
  obtain c' where c': "simulate 10 0 Y_of_double ?P ES_example MR_example (photon, []) = Some (c', [])"
    "position (current c') = vadd (position (current photon))
                (vscale (direction (current photon)) (real 10 * maxStep ?P))"
    "direction (current c') = direction (current photon)"
    "energy (current c') = energy (current photon)"
    "secondaries c' = secondaries photon"
    by blast
  have "position (current c') = Vector3d 10 0 0"
    using c'(2) by (simp add: photon_def fixed_step_def vadd_def vscale_def)
  moreover have "direction (current c') = Vector3d 1 0 0" "secondaries c' = []"
    using c'(3,5) by (simp_all add: photon_def)
  moreover have "id_ps (current photon) = 22" "position (current photon) = Vector3d 0 0 0"
    "direction (current photon) = Vector3d 1 0 0"
    by (simp_all add: photon_def)
  ultimately show ?thesis using g c'(1,4) by blast
qed

section \<open>Facts about the elastic scattering\<close>

text \<open>
  The model of the HepPID functions reads back what \<^verbatim>\<open>nucleusId\<close> writes.
\<close>

lemma nucleusId_read_back:
  assumes "nucleusId a z = Inr i" "a < 1000"
  shows "isNucleus i \<and> massNumber i = a \<and> chargeNumber i = z"
proof -
  from assms have r: "0 \<le> z" "1 \<le> a" "z \<le> a" and i: "i = 1000000000 + z * 10000 + a * 10"
    by (auto simp: nucleusId_def split: if_splits)
  have ai: "\<bar>i\<bar> = i" using r i by simp
  have d10: "i div 1000000000 = 1" using r i assms(2) by simp
  have d9: "i div 100000000 = 10" using r i assms(2) by simp
  have dz: "i div 10000 = 100000 + z" using r i assms(2) by simp
  have da: "i div 10 = 100000000 + z * 1000 + a" using r i by simp
  have "(100000 + z) mod 1000 = (100 * 1000 + z) mod 1000" by simp
  also have "\<dots> = z mod 1000" by (simp only: mod_mult_self3)
  also have "\<dots> = z" using r assms(2) by simp
  finally have mz: "(100000 + z) mod 1000 = z" .
  have "(100000000 + z * 1000 + a) mod 1000 = ((100000 + z) * 1000 + a) mod 1000"
    by (simp add: algebra_simps)
  also have "\<dots> = a mod 1000" by (simp only: mod_mult_self3)
  also have "\<dots> = a" using r assms(2) by simp
  finally have ma: "(100000000 + z * 1000 + a) mod 1000 = a" .
  have n1: "i \<noteq> 2112" "i \<noteq> 2212" using r i by simp_all
  have nuc: "HepPID_isNucleus i"
    using r by (simp add: HepPID_isNucleus_def ai d10 d9 dz da mz ma n1)
  show ?thesis
    using nuc by (simp add: isNucleus_def massNumber_def chargeNumber_def HepPID_A_def
        HepPID_Z_def ai dz da mz ma n1)
qed

lemma helium_nucleus:
  "isNucleus (id_ps (current (helium lf step))) \<and> massNumber (id_ps (current (helium lf step))) = 4 \<and>
   chargeNumber (id_ps (current (helium lf step))) = 2"
  by (simp add: helium_def isNucleus_def massNumber_def chargeNumber_def HepPID_isNucleus_def
      HepPID_A_def HepPID_Z_def)

lemma helium_fields:
  "redshift (helium lf step) = 0" "currentStep (helium lf step) = step"
  "secondaries (helium lf step) = []"
  by (simp_all add: helium_def)

lemma helium_lorentz: "getLorentzFactor (current (helium lf step)) = lf"
  using c_squared_pos by (simp add: helium_def getLorentzFactor_def)

lemma log10_pow: "log 10 (10 ^ n) = real n"
  by simp

lemma ES_process_in_range:
  assumes "isNucleus (id_ps (current c))"
    and "lg = log 10 (getLorentzFactor (current c) * (1 + redshift c))"
    and "lgmin \<le> lg" "lg \<le> lgmax"
  shows "ES_process E c draws =
           ES_loop E lg (redshift c) (massNumber (id_ps (current c))) (chargeNumber (id_ps (current c)))
             (massNumber (id_ps (current c)) - chargeNumber (id_ps (current c))) (currentStep c) c draws"
  using assms by (simp add: ES_process_def Let_def)

lemma ES_loop_no_interaction:
  assumes "0 < step" "interpolateEquidistant lg lgmin lgmax (tabRate E) = Some rate0"
    and "rate = rate0 * (real_of_int (Z * N) / real_of_int A) * ((1 + z) ^ 2 * redshiftScaling E z)"
    and "rate = 0 \<or> u = 0 \<or> step < - ln u / rate"
  shows "ES_loop E lg z A Z N step cand (u # us) = Inr (cand, us)"
  using assms by (subst ES_loop.simps) (auto simp: Let_def)

lemma ES_loop_interaction:
  assumes "0 < step" "interpolateEquidistant lg lgmin lgmax (tabRate E) = Some rate0"
    and "rate = rate0 * (real_of_int (Z * N) / real_of_int A) * ((1 + z) ^ 2 * redshiftScaling E z)"
    and "rate \<noteq> 0" "u \<noteq> 0" "- ln u / rate \<le> step"
    and "i = nat \<lfloor>(lg - lgmin) / (lgmax - lgmin) * (real nlg - 1)\<rfloor>"
    and "i < length (tabCDF E)" "tabCDF E ! i \<noteq> []"
  shows "\<exists>En pos. ES_loop E lg z A Z N step cand (u # u2 # u3 # u4 # u5 # rest)
           = ES_loop E lg z A Z N (step - (- ln u / rate))
               (addSecondary 22 En pos 1 (interactionTag_ES E) cand) rest"
  using assms by (subst ES_loop.simps) (auto simp: Let_def)

lemma helium_lg:
  "log 10 (getLorentzFactor (current (helium (10 ^ 10) s)) * (1 + redshift (helium (10 ^ 10) s))) = 10"
proof -
  have "redshift (helium (10 ^ 10) s) = 0" by (simp add: helium_def)
  then have "getLorentzFactor (current (helium (10 ^ 10) s)) * (1 + redshift (helium (10 ^ 10) s))
               = 10 ^ 10"
    by (simp add: helium_lorentz)
  then show ?thesis using log10_pow [of 10] by simp
qed

lemma example_rate: "interpolateEquidistant 10 lgmin lgmax (tabRate ES_example) = Some 1"
  by (simp add: interpolateEquidistant_def ES_example_def lgmin_def lgmax_def Let_def)

lemma example_index:
  "nat \<lfloor>(10 - lgmin) / (lgmax - lgmin) * (real nlg - 1)\<rfloor> = 100"
  by (simp add: lgmin_def lgmax_def nlg_def)

lemma example_row:
  "nat \<lfloor>(10 - lgmin) / (lgmax - lgmin) * (real nlg - 1)\<rfloor> < length (tabCDF ES_example) \<and>
   tabCDF ES_example ! nat \<lfloor>(10 - lgmin) / (lgmax - lgmin) * (real nlg - 1)\<rfloor> \<noteq> []"
  unfolding example_index by (simp add: ES_example_def)

lemma helium_lg_pow:
  "log 10 (getLorentzFactor (current (helium (10 ^ n) s)) * (1 + redshift (helium (10 ^ n) s)))
     = real n"
  using log10_pow [of n] by (simp add: helium_lorentz helium_fields)

section \<open>Free paths and interactions of the elastic scattering (C3)\<close>

text \<open>
  C3, as amended. For a nucleus whose boosted \<open>lg = log10 (\<gamma> (1 + z))\<close> lies in the
  tabulated range, \<^verbatim>\<open>process\<close> enters the loop with the current step, and each pass
  of the loop, with the rate the interpolated rate times \<open>Z N / A\<close> times
  \<open>(1 + z)^2\<close> times the redshift scaling of the background (a positive rate), draws
  \<open>freePath = - ln u / rate\<close> for the next number \<open>u\<close> in \<open>(0, 1)\<close>; when the
  remaining step is smaller than the free path it returns without an interaction, and
  otherwise, the free path being at most the remaining step, it appends one secondary
  photon (id 22, weight 1), lowers the remaining step by the free path and repeats. The
  witness is a step with two interactions.
\<close>

theorem ES_free_path_loop:
  assumes nuc: "isNucleus (id_ps (current c))"
    and pos: "0 < getLorentzFactor (current c) * (1 + redshift c)"
    and lg: "lg = log 10 (getLorentzFactor (current c) * (1 + redshift c))"
    and range: "lgmin \<le> lg" "lg \<le> lgmax"
    and ids: "A = massNumber (id_ps (current c))" "Z = chargeNumber (id_ps (current c))" "N = A - Z"
    and tab: "interpolateEquidistant lg lgmin lgmax (tabRate E) = Some rate0"
    and rate: "rate = rate0 * (real_of_int (Z * N) / real_of_int A)
                        * ((1 + redshift c) ^ 2 * redshiftScaling E (redshift c))"
    and rpos: "0 < rate" and u: "0 < u" "u < 1" and step: "0 < remainingStep"
    and fp: "freePath = - ln u / rate"
  shows "ES_process E c draws = ES_loop E lg (redshift c) A Z N (currentStep c) c draws \<and>
         (remainingStep < freePath \<longrightarrow>
            ES_loop E lg (redshift c) A Z N remainingStep cand (u # us) = Inr (cand, us)) \<and>
         (freePath \<le> remainingStep \<and>
          nat \<lfloor>(lg - lgmin) / (lgmax - lgmin) * (real nlg - 1)\<rfloor> < length (tabCDF E) \<and>
          tabCDF E ! nat \<lfloor>(lg - lgmin) / (lgmax - lgmin) * (real nlg - 1)\<rfloor> \<noteq> [] \<longrightarrow>
            (\<exists>En pos. ES_loop E lg (redshift c) A Z N remainingStep cand (u # u2 # u3 # u4 # u5 # rest)
               = ES_loop E lg (redshift c) A Z N (remainingStep - freePath)
                   (cand\<lparr>secondaries := secondaries cand @
                       [\<lparr>sec_id = 22, sec_energy = En, sec_position = pos, sec_weight = 1,
                         sec_tag = interactionTag_ES E\<rparr>]\<rparr>) rest))"
proof -
  have a: "ES_process E c draws = ES_loop E lg (redshift c) A Z N (currentStep c) c draws"
    using ES_process_in_range [OF nuc lg range] ids by simp
  have b: "remainingStep < freePath \<longrightarrow>
            ES_loop E lg (redshift c) A Z N remainingStep cand (u # us) = Inr (cand, us)"
    using ES_loop_no_interaction [OF step tab rate, of u cand us] fp by simp
  have d: "freePath \<le> remainingStep \<and>
          nat \<lfloor>(lg - lgmin) / (lgmax - lgmin) * (real nlg - 1)\<rfloor> < length (tabCDF E) \<and>
          tabCDF E ! nat \<lfloor>(lg - lgmin) / (lgmax - lgmin) * (real nlg - 1)\<rfloor> \<noteq> [] \<longrightarrow>
            (\<exists>En pos. ES_loop E lg (redshift c) A Z N remainingStep cand (u # u2 # u3 # u4 # u5 # rest)
               = ES_loop E lg (redshift c) A Z N (remainingStep - freePath)
                   (cand\<lparr>secondaries := secondaries cand @
                       [\<lparr>sec_id = 22, sec_energy = En, sec_position = pos, sec_weight = 1,
                         sec_tag = interactionTag_ES E\<rparr>]\<rparr>) rest)"
  proof (intro impI, elim conjE)
    assume f: "freePath \<le> remainingStep"
      and i: "nat \<lfloor>(lg - lgmin) / (lgmax - lgmin) * (real nlg - 1)\<rfloor> < length (tabCDF E)"
      and ne: "tabCDF E ! nat \<lfloor>(lg - lgmin) / (lgmax - lgmin) * (real nlg - 1)\<rfloor> \<noteq> []"
    have r0: "rate \<noteq> 0" and u0: "u \<noteq> 0" using rpos u by simp_all
    have f': "- ln u / rate \<le> remainingStep" using f fp by simp
    from ES_loop_interaction [OF step tab rate r0 u0 f' refl i ne, of cand u2 u3 u4 u5 rest]
    show "\<exists>En pos. ES_loop E lg (redshift c) A Z N remainingStep cand (u # u2 # u3 # u4 # u5 # rest)
               = ES_loop E lg (redshift c) A Z N (remainingStep - freePath)
                   (cand\<lparr>secondaries := secondaries cand @
                       [\<lparr>sec_id = 22, sec_energy = En, sec_position = pos, sec_weight = 1,
                         sec_tag = interactionTag_ES E\<rparr>]\<rparr>) rest"
      by (simp add: addSecondary_def fp)
  qed
  from a b d show ?thesis by blast
qed

theorem ES_free_path_loop_witness:
  "\<exists>c'. ES_process ES_example (helium (10 ^ 10) (5 / 2))
           [exp (- 1), 1 / 2, 1 / 2, 1 / 2, 1 / 2, exp (- 1), 1 / 2, 1 / 2, 1 / 2, 1 / 2, exp (- 1)]
         = Inr (c', []) \<and>
        map sec_id (secondaries c') = [22, 22] \<and> map sec_weight (secondaries c') = [1, 1]"
proof -
  let ?c = "helium (10 ^ 10) (5 / 2)"
  let ?d3 = "[exp (- 1)] :: real list"
  let ?d2 = "[exp (- 1), 1 / 2, 1 / 2, 1 / 2, 1 / 2, exp (- 1)] :: real list"
  let ?d1 = "[exp (- 1), 1 / 2, 1 / 2, 1 / 2, 1 / 2, exp (- 1), 1 / 2, 1 / 2, 1 / 2, 1 / 2, exp (- 1)] :: real list"
  have nuc: "isNucleus (id_ps (current ?c))" using helium_nucleus by simp
  have pos: "0 < getLorentzFactor (current ?c) * (1 + redshift ?c)"
    by (simp add: helium_lorentz) (simp add: helium_def)
  have lg: "10 = log 10 (getLorentzFactor (current ?c) * (1 + redshift ?c))"
    using helium_lg [of "5 / 2"] by simp
  have r1: "lgmin \<le> 10" and r2: "10 \<le> lgmax" by (simp_all add: lgmin_def lgmax_def)
  have i1: "4 = massNumber (id_ps (current ?c))" and i2: "2 = chargeNumber (id_ps (current ?c))"
    using helium_nucleus [of "10 ^ 10" "5 / 2"] by simp_all
  have i3: "(2::int) = 4 - 2" by simp
  have rate: "(1::real) = 1 * (real_of_int (2 * 2) / real_of_int 4)
                * ((1 + redshift ?c) ^ 2 * redshiftScaling ES_example (redshift ?c))"
    by (simp add: ES_example_def helium_def)
  have rpos: "(0::real) < 1" by simp
  have u1: "0 < exp (- 1 :: real)" and u2: "exp (- 1 :: real) < 1" by simp_all
  have fp: "(1::real) = - ln (exp (- 1)) / 1" by simp
  note T = ES_free_path_loop [OF nuc pos lg r1 r2 i1 i2 i3 example_rate rate rpos u1 u2 _ fp]
  have s1: "(0::real) < 5 / 2" and s2: "(0::real) < 3 / 2" and s3: "(0::real) < 1 / 2" by simp_all
  have p: "ES_process ES_example ?c ?d1 = ES_loop ES_example 10 0 4 2 2 (5 / 2) ?c ?d1"
    using T [OF s1, where cand = ?c and ?u2.0 = "1 / 2" and ?u3.0 = "1 / 2" and ?u4.0 = "1 / 2"
        and ?u5.0 = "1 / 2" and rest = ?d2 and draws = ?d1 and us = "[]"]
    by (simp add: helium_fields)
  obtain E1 p1 where l1: "ES_loop ES_example 10 0 4 2 2 (5 / 2) ?c ?d1
      = ES_loop ES_example 10 0 4 2 2 (3 / 2)
          (?c\<lparr>secondaries := secondaries ?c @
              [\<lparr>sec_id = 22, sec_energy = E1, sec_position = p1, sec_weight = 1,
                sec_tag = interactionTag_ES ES_example\<rparr>]\<rparr>) ?d2"
    using T [OF s1, where cand = ?c and ?u2.0 = "1 / 2" and ?u3.0 = "1 / 2" and ?u4.0 = "1 / 2"
        and ?u5.0 = "1 / 2" and rest = ?d2 and draws = ?d1 and us = "[]"] example_row
    by (auto simp: helium_fields)
  let ?c1 = "?c\<lparr>secondaries := secondaries ?c @
              [\<lparr>sec_id = 22, sec_energy = E1, sec_position = p1, sec_weight = 1,
                sec_tag = interactionTag_ES ES_example\<rparr>]\<rparr>"
  obtain E2 p2 where l2: "ES_loop ES_example 10 0 4 2 2 (3 / 2) ?c1 ?d2
      = ES_loop ES_example 10 0 4 2 2 (1 / 2)
          (?c1\<lparr>secondaries := secondaries ?c1 @
              [\<lparr>sec_id = 22, sec_energy = E2, sec_position = p2, sec_weight = 1,
                sec_tag = interactionTag_ES ES_example\<rparr>]\<rparr>) ?d3"
    using T [OF s2, where cand = ?c1 and ?u2.0 = "1 / 2" and ?u3.0 = "1 / 2" and ?u4.0 = "1 / 2"
        and ?u5.0 = "1 / 2" and rest = ?d3 and draws = ?d1 and us = "[]"] example_row
    by (auto simp: helium_fields)
  let ?c2 = "?c1\<lparr>secondaries := secondaries ?c1 @
              [\<lparr>sec_id = 22, sec_energy = E2, sec_position = p2, sec_weight = 1,
                sec_tag = interactionTag_ES ES_example\<rparr>]\<rparr>"
  have l3: "ES_loop ES_example 10 0 4 2 2 (1 / 2) ?c2 ?d3 = Inr (?c2, [])"
    using T [OF s3, where cand = ?c2 and us = "[]" and ?u2.0 = "1 / 2" and ?u3.0 = "1 / 2"
        and ?u4.0 = "1 / 2" and ?u5.0 = "1 / 2" and rest = "[]" and draws = ?d1]
    by (simp add: helium_fields)
  have "map sec_id (secondaries ?c2) = [22, 22]" "map sec_weight (secondaries ?c2) = [1, 1]"
    by (simp_all add: helium_fields)
  with p l1 l2 l3 show ?thesis by auto
qed

text \<open>
  The claim as stated has no interaction when the free path is at least the remaining
  step. The test of the code is \<^verbatim>\<open>step < randDist\<close>: at a free path equal to the
  remaining step (rate 1, \<open>u = exp (-1)\<close>, step 1) the interaction is recorded.
\<close>

theorem interaction_at_equal_free_path:
  "interpolateEquidistant 10 lgmin lgmax (tabRate ES_example) = Some 1 \<and>
   - ln (exp (- 1)) / (1 * (real_of_int (2 * 2) / real_of_int 4) * ((1 + 0) ^ 2 * redshiftScaling ES_example 0))
     = currentStep (helium (10 ^ 10) 1) \<and>
   (\<exists>c'. ES_process ES_example (helium (10 ^ 10) 1) [exp (- 1), 1 / 2, 1 / 2, 1 / 2, 1 / 2] = Inr (c', []) \<and>
         length (secondaries c') = 1)"
proof -
  let ?c = "helium (10 ^ 10) 1"
  have fp: "- ln (exp (- 1)) / (1 * (real_of_int (2 * 2) / real_of_int 4) * ((1 + 0) ^ 2 * redshiftScaling ES_example 0))
     = currentStep ?c"
    by (simp add: helium_def ES_example_def)
  have p: "ES_process ES_example ?c [exp (- 1), 1 / 2, 1 / 2, 1 / 2, 1 / 2]
         = ES_loop ES_example 10 0 4 2 2 1 ?c [exp (- 1), 1 / 2, 1 / 2, 1 / 2, 1 / 2]"
    using ES_process_in_range [of ?c 10 ES_example] helium_nucleus [of "10 ^ 10" 1] helium_lg [of 1]
    by (simp add: lgmin_def lgmax_def) (simp add: helium_def)
  have rate: "(1::real) = 1 * (real_of_int (2 * 2) / real_of_int 4) * ((1 + 0) ^ 2 * redshiftScaling ES_example 0)"
    by (simp add: ES_example_def)
  obtain En pos where l: "ES_loop ES_example 10 0 4 2 2 1 ?c [exp (- 1), 1 / 2, 1 / 2, 1 / 2, 1 / 2]
      = ES_loop ES_example 10 0 4 2 2 (1 - (- ln (exp (- 1)) / 1))
          (addSecondary 22 En pos 1 (interactionTag_ES ES_example) ?c) []"
    using ES_loop_interaction [of 1 10 ES_example 1 1 2 2 4 0 "exp (- 1)" _ ?c "1 / 2" "1 / 2" "1 / 2" "1 / 2" "[]",
        OF _ example_rate rate _ _ _ refl] example_row
    by auto
  have e: "ES_loop ES_example 10 0 4 2 2 (1 - (- ln (exp (- 1)) / 1))
          (addSecondary 22 En pos 1 (interactionTag_ES ES_example) ?c) []
        = Inr (addSecondary 22 En pos 1 (interactionTag_ES ES_example) ?c, [])"
    by (subst ES_loop.simps) simp
  have "length (secondaries (addSecondary 22 En pos 1 (interactionTag_ES ES_example) ?c)) = 1"
    by (simp add: addSecondary_def helium_def)
  with p l e fp example_rate show ?thesis by auto
qed

section \<open>The bounds of the rate table (C9)\<close>

text \<open>
  C9. When \<open>lg\<close> lies outside \<open>[lgmin, lgmax]\<close> the module returns the candidate as
  it is, with no secondary, no draw taken and no failure. At \<open>lg = lgmin\<close> and at
  \<open>lg = lgmax\<close> a nucleus is in range, the loop is entered, and the rate interpolated
  at the bound is the first and the last entry of the table.
\<close>

theorem ES_table_range:
  assumes pos: "0 < getLorentzFactor (current c) * (1 + redshift c)"
    and lg: "lg = log 10 (getLorentzFactor (current c) * (1 + redshift c))"
  shows "(lg < lgmin \<or> lgmax < lg \<longrightarrow> ES_process E c draws = Inr (c, draws)) \<and>
         (isNucleus (id_ps (current c)) \<and> (lg = lgmin \<or> lg = lgmax) \<longrightarrow>
            ES_process E c draws =
              ES_loop E lg (redshift c) (massNumber (id_ps (current c)))
                (chargeNumber (id_ps (current c)))
                (massNumber (id_ps (current c)) - chargeNumber (id_ps (current c)))
                (currentStep c) c draws) \<and>
         (tabRate E \<noteq> [] \<longrightarrow>
            interpolateEquidistant lgmin lgmin lgmax (tabRate E) = Some (tabRate E ! 0) \<and>
            interpolateEquidistant lgmax lgmin lgmax (tabRate E)
              = Some (tabRate E ! (length (tabRate E) - 1)))"
proof -
  have a: "lg < lgmin \<or> lgmax < lg \<longrightarrow> ES_process E c draws = Inr (c, draws)"
    using lg by (auto simp: ES_process_def Let_def)
  have b: "isNucleus (id_ps (current c)) \<and> (lg = lgmin \<or> lg = lgmax) \<longrightarrow>
            ES_process E c draws =
              ES_loop E lg (redshift c) (massNumber (id_ps (current c)))
                (chargeNumber (id_ps (current c)))
                (massNumber (id_ps (current c)) - chargeNumber (id_ps (current c)))
                (currentStep c) c draws"
    using ES_process_in_range [of c lg E draws] lg by (auto simp: lgmin_def lgmax_def)
  have d: "tabRate E \<noteq> [] \<longrightarrow>
            interpolateEquidistant lgmin lgmin lgmax (tabRate E) = Some (tabRate E ! 0) \<and>
            interpolateEquidistant lgmax lgmin lgmax (tabRate E)
              = Some (tabRate E ! (length (tabRate E) - 1))"
    by (simp add: interpolateEquidistant_def lgmin_def lgmax_def)
  from a b d show ?thesis by blast
qed

theorem ES_table_range_witness:
  "ES_process ES_example (helium (10 ^ 0) 1) [1 / 2] = Inr (helium (10 ^ 0) 1, [1 / 2]) \<and>
   ES_process ES_example (helium (10 ^ 15) 1) [1 / 2] = Inr (helium (10 ^ 15) 1, [1 / 2]) \<and>
   ES_process ES_example (helium (10 ^ 6) 1) [1 / 2]
     = ES_loop ES_example 6 0 4 2 2 1 (helium (10 ^ 6) 1) [1 / 2] \<and>
   ES_process ES_example (helium (10 ^ 14) 1) [1 / 2]
     = ES_loop ES_example 14 0 4 2 2 1 (helium (10 ^ 14) 1) [1 / 2] \<and>
   interpolateEquidistant lgmin lgmin lgmax (tabRate ES_example) = Some 1 \<and>
   interpolateEquidistant lgmax lgmin lgmax (tabRate ES_example) = Some 1"
proof -
  have pos: "0 < getLorentzFactor (current (helium (10 ^ n) 1)) * (1 + redshift (helium (10 ^ n) 1))"
    for n by (simp add: helium_lorentz helium_fields)
  have lg: "real n = log 10 (getLorentzFactor (current (helium (10 ^ n) 1))
                              * (1 + redshift (helium (10 ^ n) 1)))" for n
    using helium_lg_pow [of n 1] by simp
  have ne: "tabRate ES_example \<noteq> []" by (simp add: ES_example_def)
  have v: "tabRate ES_example ! 0 = 1" "tabRate ES_example ! (length (tabRate ES_example) - 1) = 1"
    by (simp_all add: ES_example_def)
  have a: "ES_process ES_example (helium (10 ^ 0) 1) [1 / 2] = Inr (helium (10 ^ 0) 1, [1 / 2])"
    using ES_table_range [OF pos lg, of 0 ES_example "[1 / 2]"]
    by (simp add: lgmin_def)
  have b: "ES_process ES_example (helium (10 ^ 15) 1) [1 / 2] = Inr (helium (10 ^ 15) 1, [1 / 2])"
    using ES_table_range [OF pos lg, of 15 ES_example "[1 / 2]"]
    by (simp add: lgmax_def)
  have c: "ES_process ES_example (helium (10 ^ 6) 1) [1 / 2]
     = ES_loop ES_example 6 0 4 2 2 1 (helium (10 ^ 6) 1) [1 / 2]"
    using ES_table_range [OF pos lg, of 6 ES_example "[1 / 2]"] helium_nucleus [of "10 ^ 6" 1]
    by (simp add: lgmin_def helium_fields)
  have d: "ES_process ES_example (helium (10 ^ 14) 1) [1 / 2]
     = ES_loop ES_example 14 0 4 2 2 1 (helium (10 ^ 14) 1) [1 / 2]"
    using ES_table_range [OF pos lg, of 14 ES_example "[1 / 2]"] helium_nucleus [of "10 ^ 14" 1]
    by (simp add: lgmax_def helium_fields)
  have e: "interpolateEquidistant lgmin lgmin lgmax (tabRate ES_example) = Some 1 \<and>
   interpolateEquidistant lgmax lgmin lgmax (tabRate ES_example) = Some 1"
    using ES_table_range [OF pos lg, of 6 ES_example "[1 / 2]"] ne v by simp
  from a b c d e show ?thesis by blast
qed

section \<open>Secondaries of the monopole radiation (C4)\<close>

lemma MR_process_secondaries:
  "MR_process M c = Inr c' \<Longrightarrow> secondaries c' = secondaries c \<and> weight c' = weight c"
  by (auto simp: MR_process_def Let_def limitNextStep_def split: if_splits option.splits sum.splits)

lemma MR_process_havePhotons:
  "MR_process (M\<lparr>havePhotons := b, thinning := t, maximumSamples := k\<rparr>) c = MR_process M c"
  by (simp add: MR_process_def Let_def cong: option.case_cong sum.case_cong)

lemma turning_radiation:
  "\<exists>c'. MR_process MR_example turning_monopole = Inr c' \<and> stepRadiation c' = 1 / 250000"
  apply (simp add: MR_process_def MR_example_def turning_monopole_def Let_def getLorentzFactor_def
      getVelocity_def vscale_def vdiv_def vsub_def dot_def cross_def mu0_def limitNextStep_def
      setEnergy_def)
  apply (simp add: c_squared_def c_light_def power2_eq_square)
  done

text \<open>
  C4, as amended. MonopoleRadiation::process appends no secondary and takes no random
  number: its result does not depend on \<^verbatim>\<open>havePhotons\<close>, \<^verbatim>\<open>thinning\<close> and
  \<^verbatim>\<open>maximumSamples\<close>, and the list of secondaries of the candidate is left as it was.
  The sampling of the photons and their thinning with the weight \<open>w1 / f^thinning\<close>
  stand inside a comment of the source.
\<close>

theorem MR_never_emits:
  "MR_process (M\<lparr>havePhotons := b, thinning := t, maximumSamples := k\<rparr>) c = MR_process M c \<and>
   (case MR_process M c of
      Inl e \<Rightarrow> True
    | Inr c' \<Rightarrow> secondaries c' = secondaries c)"
  using MR_process_secondaries [of M c]
  by (simp add: MR_process_havePhotons split: sum.splits)

text \<open>
  The claim as stated has secondaries accepted and enqueued when thinning is enabled and
  photons are requested. With photons requested and the thinning 1/2, a monopole that
  radiates the energy \<open>4 * 10^-6\<close> in its step is left without any secondary.
\<close>

theorem thinning_disabled:
  "havePhotons MR_example \<and> 0 < thinning MR_example \<and> mcharge (current turning_monopole) \<noteq> 0 \<and>
   (\<exists>c'. MR_process MR_example turning_monopole = Inr c' \<and>
         stepRadiation c' = 1 / 250000 \<and> secondaries c' = [])"
proof -
  obtain c' where c': "MR_process MR_example turning_monopole = Inr c'"
    "stepRadiation c' = 1 / 250000"
    using turning_radiation by blast
  have "secondaries c' = []"
    using MR_process_secondaries [OF c'(1)] by (simp add: turning_monopole_def)
  moreover have "havePhotons MR_example \<and> 0 < thinning MR_example
      \<and> mcharge (current turning_monopole) \<noteq> 0"
    by (simp add: MR_example_def turning_monopole_def)
  ultimately show ?thesis using c' by blast
qed

section \<open>Energy non-negativity (C7)\<close>

text \<open>
  C7. The claim: every operation that assigns the energy, setEnergy and
  setLorentzFactor included, leaves \<open>energy \<ge> 0\<close> for every input value. setEnergy
  clamps at zero. setLorentzFactor clamps the Lorentz factor at 0 and then assigns
  \<open>(lf - 1) * pmass * c_squared\<close> to the field directly: for a particle of rest mass
  1 kg and the Lorentz factor 1/2 the kinetic energy becomes \<open>- c_squared / 2\<close>, which
  is negative.
\<close>

theorem setLorentzFactor_negative_energy:
  "energy (setLorentzFactor (1 / 2) heavy_state) = - (c_squared / 2)
   \<and> energy (setLorentzFactor (1 / 2) heavy_state) < 0"
  by (simp add: setLorentzFactor_def heavy_state_def c_squared_def c_light_def)

end
